theory Spec2Isabelle
  imports Main
begin

section \<open>The BLE / AWS Greengrass switch example (example_ble_aws_1.py)\<close>

text \<open>
  The script wires two BlueST devices to two AWS IoT clients. Everything it does is
  a sequence of calls into two SDKs plus a handful of module globals. The embedding
  keeps the globals in a record, logs every SDK call and every \<^verbatim>\<open>print\<close> in the
  order the script makes it, and returns a raised exception as the left summand of
  the result. What the SDKs and the Python library answer (whether a call raises,
  which nodes were discovered, which notification is waiting, how \<^verbatim>\<open>json.loads\<close> and
  \<^verbatim>\<open>getopt.getopt\<close> decode their argument) is not code of the script: it is the
  parameter \<open>env\<close> of every definition. The callbacks of the act topic run on the
  MQTT client's thread; the model lets them run where messages are said to arrive:
  after the subscriptions of the startup and before each pass of the loop.
\<close>

subsection \<open>Values\<close>

text \<open>\<^verbatim>\<open>class SwitchStatus(Enum): OFF = 0; ON = 1\<close>, and its \<^verbatim>\<open>.value\<close>.\<close>

datatype SwitchStatus = OFF | ON

fun status_value :: "SwitchStatus \<Rightarrow> int" where
  "status_value OFF = 0"
| "status_value ON = 1"

text \<open>
  The exceptions the script can meet. The three SDK exceptions carry the message
  that \<^verbatim>\<open>print(e)\<close> shows; \<open>SystemExit\<close> carries the exit code.
\<close>

datatype pyexn =
    UnboundLocalError
  | NameError
  | ValueError
  | KeyError
  | TypeError
  | AttributeError
  | GetoptError
  | SystemExit int
  | InvalidOperationException string
  | BTLEException string
  | WrongInstantiationException string
  | KeyboardInterrupt
  | OtherException string

text \<open>What \<^verbatim>\<open>json.loads\<close> can return.\<close>

datatype json =
    JNull
  | JBool bool
  | JInt int
  | JFloat int int
  | JString string
  | JArray "json list"
  | JObject "(string \<times> json) list"

text \<open>The handles the SDKs hand out: a BLE node, its switch feature, an MQTT client.\<close>

datatype node = Node (get_tag: string) (get_name: string)

datatype feature = FeatureSwitch node

datatype client = Client (get_client_id: string)

text \<open>A sample of the switch feature: its timestamp and the switch status read.\<close>

datatype sample = Sample (get_timestamp: int) (get_switch_status: int)

subsection \<open>Constants of the script\<close>

definition NL :: string where
  "NL = [CHR 0x0A]"

definition USAGE :: string where
  "USAGE = ''Usage:'' @ NL @ NL @ ''Use certificate based mutual authentication:'' @ NL
     @ ''python <application>.py -e <endpoint> -r <root_ca_path>'' @ NL @ NL"

definition HELP :: string where
  "HELP = ''-e, --endpoint'' @ NL @ ''    Your AWS IoT custom endpoint'' @ NL
     @ ''-r, --rootCA'' @ NL @ ''    Root CA file path'' @ NL
     @ ''-h, --help'' @ NL @ ''    Help information'' @ NL @ NL"

definition INTRO :: string where
  "INTRO = ''###############################################'' @ NL
     @ ''# Edge IoT Example with Amazon Cloud Platform #'' @ NL
     @ ''###############################################''"

definition IOT_DEVICE_1_MAC :: string where
  "IOT_DEVICE_1_MAC = ''d1:07:fd:84:30:8c''"

definition IOT_DEVICE_2_MAC :: string where
  "IOT_DEVICE_2_MAC = ''d7:90:95:be:58:7e''"

definition SCANNING_TIME_s :: int where
  "SCANNING_TIME_s = 5"

definition SHADOW_CALLBACK_TIMEOUT_s :: int where
  "SHADOW_CALLBACK_TIMEOUT_s = 5"

definition MQTT_QOS_0 :: int where
  "MQTT_QOS_0 = 0"

definition MQTT_QOS_1 :: int where
  "MQTT_QOS_1 = 1"

definition MQTT_IOT_DEVICE_SWITCH_SENSE_TOPIC :: string where
  "MQTT_IOT_DEVICE_SWITCH_SENSE_TOPIC = ''iot_device/switch_sense''"

definition MQTT_IOT_DEVICE_SWITCH_ACT_TOPIC :: string where
  "MQTT_IOT_DEVICE_SWITCH_ACT_TOPIC = ''iot_device/switch_act''"

definition CERTIF_EXT :: string where
  "CERTIF_EXT = ''.pem''"

definition PRIV_K_EXT :: string where
  "PRIV_K_EXT = ''.prv''"

definition DEVICES_PATH :: string where
  "DEVICES_PATH = ''./devices_ble_aws/''"

definition IOT_DEVICE_1_NAME :: string where
  "IOT_DEVICE_1_NAME = ''IoT_Device_1''"

definition IOT_DEVICE_2_NAME :: string where
  "IOT_DEVICE_2_NAME = ''IoT_Device_2''"

definition IOT_DEVICE_1_CERTIF_PATH :: string where
  "IOT_DEVICE_1_CERTIF_PATH = DEVICES_PATH @ IOT_DEVICE_1_NAME @ CERTIF_EXT"

definition IOT_DEVICE_2_CERTIF_PATH :: string where
  "IOT_DEVICE_2_CERTIF_PATH = DEVICES_PATH @ IOT_DEVICE_2_NAME @ CERTIF_EXT"

definition IOT_DEVICE_1_PRIV_K_PATH :: string where
  "IOT_DEVICE_1_PRIV_K_PATH = DEVICES_PATH @ IOT_DEVICE_1_NAME @ PRIV_K_EXT"

definition IOT_DEVICE_2_PRIV_K_PATH :: string where
  "IOT_DEVICE_2_PRIV_K_PATH = DEVICES_PATH @ IOT_DEVICE_2_NAME @ PRIV_K_EXT"

subsection \<open>The log of calls, the globals, the environment\<close>

text \<open>
  One constructor per SDK call the script makes, with the arguments it passes, and
  \<open>Print\<close> for a line written by \<^verbatim>\<open>print\<close>. \<open>Subscribe\<close> names the callback by the
  number of its device (1 for \<^verbatim>\<open>iot_device_1_callback\<close>).
\<close>

datatype event =
    Print string
  | ManagerInstance
  | ManagerAddListener
  | StartDiscovery bool int
  | Sleep int
  | StopDiscovery
  | GetNodes
  | NodeAddListener node
  | NodeConnect node
  | GetFeature node
  | WriteSwitchStatus feature int
  | DisableNotifications node feature
  | EnableNotifications node feature
  | WaitForNotifications node
  | FeatureAddListener feature client string
  | NewAWSGreengrass string string
  | GetClient string string string
  | ClientConnect client
  | Subscribe client string int nat
  | UpdateShadowState client string int
  | Publish client string string int

text \<open>
  The module globals. A global that no statement has assigned yet is \<open>None\<close>:
  reading it raises \<open>NameError\<close>. The four status and flag globals are assigned by
  the first statements of \<^verbatim>\<open>main\<close>, before anything reads them.
\<close>

record state =
  endpoint :: "string option"
  root_ca_path :: "string option"
  iot_device_1 :: "node option"
  iot_device_2 :: "node option"
  iot_device_1_status :: SwitchStatus
  iot_device_2_status :: SwitchStatus
  iot_device_1_act_flag :: bool
  iot_device_2_act_flag :: bool
  log :: "event list"

text \<open>
  What the script does not decide. \<open>sdk_raises\<close> says, from the calls made so far,
  whether the next SDK call raises and what; \<open>discovered_nodes\<close> is what
  \<^verbatim>\<open>manager.get_nodes()\<close> returns; \<open>notification\<close> is the sample, if any, that a
  \<^verbatim>\<open>wait_for_notifications\<close> on a node handles; \<open>json_loads\<close>, \<open>json_dumps\<close> and \<open>getopt\<close>
  are the library functions of these names; \<open>FEATURE_DATA_NAME\<close> is the constant
  \<^verbatim>\<open>feature_switch.FeatureSwitch.FEATURE_DATA_NAME\<close> and \<open>field_name\<close> the name
  \<^verbatim>\<open>feature.get_fields_description()[0].get_name()\<close>, both of the BlueST SDK;
  \<open>early_acts\<close> are the payloads on the act topic whose callbacks run between the
  subscriptions and the statement after them (the MQTT client runs a callback on its
  own thread as soon as a message arrives).
\<close>

record env =
  sdk_raises :: "event list \<Rightarrow> event \<Rightarrow> pyexn option"
  discovered_nodes :: "node list"
  notification :: "event list \<Rightarrow> node \<Rightarrow> sample option"
  json_loads :: "string \<Rightarrow> pyexn + json"
  json_dumps :: "json \<Rightarrow> string"
  getopt :: "string list \<Rightarrow> pyexn + ((string \<times> string) list \<times> string list)"
  FEATURE_DATA_NAME :: string
  field_name :: string
  early_acts :: "string list"

subsection \<open>Statements in sequence\<close>

text \<open>
  A piece of the script maps the state to a result and the state after it. \<open>seq\<close> is
  the semicolon: the second statement runs only when the first did not raise.
  \<open>bindp\<close> is the same for a first statement whose value the second one uses.
\<close>

type_synonym 'a prog = "state \<Rightarrow> (pyexn + 'a) \<times> state"

definition ret :: "'a \<Rightarrow> 'a prog" where
  "ret x s = (Inr x, s)"

definition raise :: "pyexn \<Rightarrow> 'a prog" where
  "raise e s = (Inl e, s)"

definition bindp :: "'a prog \<Rightarrow> ('a \<Rightarrow> 'b prog) \<Rightarrow> 'b prog" where
  "bindp m k s = (case m s of (Inl e, s') \<Rightarrow> (Inl e, s') | (Inr x, s') \<Rightarrow> k x s')"

definition seq :: "unit prog \<Rightarrow> 'a prog \<Rightarrow> 'a prog" where
  "seq m k = bindp m (\<lambda>_. k)"

definition assign :: "(state \<Rightarrow> state) \<Rightarrow> unit prog" where
  "assign f s = (Inr (), f s)"

text \<open>\<^verbatim>\<open>print(text)\<close>, and an SDK call: it is logged, then raises or returns as \<open>env\<close> says.\<close>

definition print_line :: "string \<Rightarrow> unit prog" where
  "print_line text s = (Inr (), s\<lparr>log := log s @ [Print text]\<rparr>)"

definition sdk_call :: "env \<Rightarrow> event \<Rightarrow> unit prog" where
  "sdk_call env ev s =
     (case sdk_raises env (log s) ev of
        None \<Rightarrow> (Inr (), s\<lparr>log := log s @ [ev]\<rparr>)
      | Some e \<Rightarrow> (Inl e, s\<lparr>log := log s @ [ev]\<rparr>))"

text \<open>Reading a global: \<open>NameError\<close> when it was never assigned.\<close>

definition read_global :: "(state \<Rightarrow> 'a option) \<Rightarrow> 'a prog" where
  "read_global g s = (case g s of None \<Rightarrow> (Inl NameError, s) | Some x \<Rightarrow> (Inr x, s))"

subsection \<open>Python's string operations used by the callbacks\<close>

text \<open>\<^verbatim>\<open>needle in hay\<close> on strings: \<open>needle\<close> occurs in \<open>hay\<close> as a substring.\<close>

fun py_in :: "string \<Rightarrow> string \<Rightarrow> bool" where
  "py_in needle [] = (needle = [])"
| "py_in needle (c # cs) = (take (length needle) (c # cs) = needle \<or> py_in needle cs)"

text \<open>
  \<^verbatim>\<open>text.split(" ")\<close> with an explicit separator: every single separator cuts, so
  two spaces in a row give an empty field and the empty string gives one empty field.
\<close>

fun py_split :: "char \<Rightarrow> string \<Rightarrow> string list" where
  "py_split sep [] = [[]]"
| "py_split sep (c # cs) =
     (if c = sep then [] # py_split sep cs
      else (case py_split sep cs of
              [] \<Rightarrow> [[c]]
            | w # ws \<Rightarrow> (c # w) # ws))"

text \<open>
  \<^verbatim>\<open>message_json[feature_name]\<close>: a dict looks the key up (the first pair of the list
  with that key) and raises \<open>KeyError\<close> without it; every other JSON value raises
  \<open>TypeError\<close> on a string subscript.
\<close>

fun py_subscript :: "json \<Rightarrow> string \<Rightarrow> pyexn + json" where
  "py_subscript (JObject kvs) k = (case map_of kvs k of None \<Rightarrow> Inl KeyError | Some v \<Rightarrow> Inr v)"
| "py_subscript _ k = Inl TypeError"

text \<open>\<^verbatim>\<open>value.split(" ")\<close>: only a string has the method, anything else raises \<open>AttributeError\<close>.\<close>

fun py_split_method :: "json \<Rightarrow> pyexn + string list" where
  "py_split_method (JString text) = Inr (py_split CHR '' '' text)"
| "py_split_method _ = Inl AttributeError"

subsection \<open>Devices' callbacks\<close>

text \<open>
  The first half of both callbacks (the text is the same in the two):
  \<^verbatim>\<open>
    feature_name = feature_switch.FeatureSwitch.FEATURE_DATA_NAME
    if feature_name in message.payload:
        message_json = json.loads(message.payload)
        (ts, client_id, switch_status) = message_json[feature_name].split(" ")
  \<close>
  The result is the binding of the locals \<open>client_id\<close> and \<open>switch_status\<close> after it:
  \<open>None\<close> when the \<^verbatim>\<open>if\<close> was not taken, so that the names are unbound. Unpacking a
  list that does not have three elements raises \<open>ValueError\<close>.
\<close>

definition get_client_id_and_switch_status :: "env \<Rightarrow> string \<Rightarrow> pyexn + (string \<times> string) option" where
  "get_client_id_and_switch_status env payload =
     (let feature_name = FEATURE_DATA_NAME env in
      if py_in feature_name payload then
        (case json_loads env payload of
           Inl e \<Rightarrow> Inl e
         | Inr message_json \<Rightarrow>
             (case py_subscript message_json feature_name of
                Inl e \<Rightarrow> Inl e
              | Inr v \<Rightarrow>
                  (case py_split_method v of
                     Inl e \<Rightarrow> Inl e
                   | Inr [ts, client_id, switch_status] \<Rightarrow> Inr (Some (client_id, switch_status))
                   | Inr _ \<Rightarrow> Inl ValueError)))
      else Inr None)"

text \<open>
  \<^verbatim>\<open>
    if client_id == IOT_DEVICE_1_NAME:
        iot_device_1_status = SwitchStatus.ON if switch_status != "0" else SwitchStatus.OFF
        iot_device_1_act_flag = True
  \<close>
  Reading \<open>client_id\<close> while it is unbound raises \<open>UnboundLocalError\<close>.
\<close>

definition iot_device_1_callback :: "env \<Rightarrow> string \<Rightarrow> unit prog" where
  "iot_device_1_callback env payload s =
     (case get_client_id_and_switch_status env payload of
        Inl e \<Rightarrow> (Inl e, s)
      | Inr None \<Rightarrow> (Inl UnboundLocalError, s)
      | Inr (Some (client_id, switch_status)) \<Rightarrow>
          if client_id = IOT_DEVICE_1_NAME then
            (Inr (), s\<lparr>iot_device_1_status := (if switch_status \<noteq> ''0'' then ON else OFF),
                       iot_device_1_act_flag := True\<rparr>)
          else (Inr (), s))"

definition iot_device_2_callback :: "env \<Rightarrow> string \<Rightarrow> unit prog" where
  "iot_device_2_callback env payload s =
     (case get_client_id_and_switch_status env payload of
        Inl e \<Rightarrow> (Inl e, s)
      | Inr None \<Rightarrow> (Inl UnboundLocalError, s)
      | Inr (Some (client_id, switch_status)) \<Rightarrow>
          if client_id = IOT_DEVICE_2_NAME then
            (Inr (), s\<lparr>iot_device_2_status := (if switch_status \<noteq> ''0'' then ON else OFF),
                       iot_device_2_act_flag := True\<rparr>)
          else (Inr (), s))"

text \<open>
  A message on the act topic reaches both clients, since both subscribed to it, and
  each client runs its own callback. An exception raised by a callback ends on the
  MQTT client's thread: the main thread only sees the globals the callbacks set.
\<close>

definition on_act_message :: "env \<Rightarrow> string \<Rightarrow> state \<Rightarrow> state" where
  "on_act_message env payload s =
     snd (iot_device_2_callback env payload (snd (iot_device_1_callback env payload s)))"

fun on_act_messages :: "env \<Rightarrow> string list \<Rightarrow> state \<Rightarrow> state" where
  "on_act_messages env [] s = s"
| "on_act_messages env (payload # payloads) s = on_act_messages env payloads (on_act_message env payload s)"

subsection \<open>Sensing: the feature listener\<close>

text \<open>\<^verbatim>\<open>str(n)\<close> and \<^verbatim>\<open>'{:d}'.format(n)\<close> of an integer.\<close>

fun digits_of :: "nat \<Rightarrow> string" where
  "digits_of n =
     (if n < 10 then [''0123456789'' ! n]
      else digits_of (n div 10) @ [''0123456789'' ! (n mod 10)])"

definition py_str_int :: "int \<Rightarrow> string" where
  "py_str_int i = (if i < 0 then CHR ''-'' # digits_of (nat (- i)) else digits_of (nat i))"

text \<open>
  \<^verbatim>\<open>MyFeatureSwitchListener(client, topic).on_update(feature, sample)\<close>: the message
  \<^verbatim>\<open>{name: '(timestamp) client_id switch_status'}\<close> is dumped and published.
\<close>

definition on_update :: "env \<Rightarrow> client \<Rightarrow> string \<Rightarrow> feature \<Rightarrow> sample \<Rightarrow> unit prog" where
  "on_update env client topic feature sample =
     (let switch_status = get_switch_status sample;
          sample_json_str = json_dumps env (JObject [(field_name env,
             JString (''('' @ py_str_int (get_timestamp sample) @ '') '' @ get_client_id client
                      @ '' '' @ py_str_int switch_status))])
      in sdk_call env (Publish client topic sample_json_str MQTT_QOS_0))"

text \<open>
  \<^verbatim>\<open>node.wait_for_notifications(0.05)\<close> is the SDK's: it returns whether a notification
  was handled, and handling one calls \<^verbatim>\<open>on_update\<close> of the listeners that
  \<^verbatim>\<open>add_listener\<close> gave to the node's feature.
\<close>

fun listeners_of :: "feature \<Rightarrow> event list \<Rightarrow> (client \<times> string) list" where
  "listeners_of feature [] = []"
| "listeners_of feature (FeatureAddListener f c t # evs) =
     (if f = feature then (c, t) # listeners_of feature evs else listeners_of feature evs)"
| "listeners_of feature (_ # evs) = listeners_of feature evs"

fun notify_listeners :: "env \<Rightarrow> (client \<times> string) list \<Rightarrow> feature \<Rightarrow> sample \<Rightarrow> unit prog" where
  "notify_listeners env [] feature sample = ret ()"
| "notify_listeners env ((c, t) # ls) feature sample =
     seq (on_update env c t feature sample) (notify_listeners env ls feature sample)"

definition wait_for_notifications :: "env \<Rightarrow> node \<Rightarrow> bool prog" where
  "wait_for_notifications env node =
     seq (sdk_call env (WaitForNotifications node))
       (\<lambda>s. case notification env (log s) node of
               None \<Rightarrow> ret False s
             | Some sample \<Rightarrow>
                 seq (notify_listeners env (listeners_of (FeatureSwitch node) (log s))
                        (FeatureSwitch node) sample)
                     (ret True) s)"

subsection \<open>Handling actuation of devices\<close>

text \<open>\<^verbatim>\<open>'{"state":{"desired":{"switch_status":' + str(status.value) + '}}}'\<close>\<close>

definition state_json_str :: "SwitchStatus \<Rightarrow> string" where
  "state_json_str status =
     ''{\"state\":{\"desired\":{\"switch_status\":'' @ py_str_int (status_value status) @ ''}}}''"

text \<open>
  \<^verbatim>\<open>
    iot_device.disable_notifications(iot_device_feature)
    iot_device_feature.write_switch_status(iot_device_status.value)
    iot_device.enable_notifications(iot_device_feature)
    state_json_str = ...
    iot_device_client.update_shadow_state(state_json_str, custom_shadow_callback_update,
                                          SHADOW_CALLBACK_TIMEOUT_s)
  \<close>
  The shadow callbacks only print the cloud's answer when it comes; they are left out.
\<close>

definition iot_device_act :: "env \<Rightarrow> node \<Rightarrow> feature \<Rightarrow> SwitchStatus \<Rightarrow> client \<Rightarrow> unit prog" where
  "iot_device_act env iot_device iot_device_feature iot_device_status iot_device_client =
     seq (sdk_call env (DisableNotifications iot_device iot_device_feature))
    (seq (sdk_call env (WriteSwitchStatus iot_device_feature (status_value iot_device_status)))
    (seq (sdk_call env (EnableNotifications iot_device iot_device_feature))
         (sdk_call env (UpdateShadowState iot_device_client (state_json_str iot_device_status)
                          SHADOW_CALLBACK_TIMEOUT_s))))"

text \<open>
  The globals \<^verbatim>\<open>iot_device_N_feature_switch\<close> and \<^verbatim>\<open>iot_device_N_client\<close> are assigned
  once, from \<^verbatim>\<open>get_feature\<close> and \<^verbatim>\<open>get_client\<close>, before anything reads them; the model
  writes their values where the script reads them.
\<close>

definition iot_device_1_client :: client where
  "iot_device_1_client = Client IOT_DEVICE_1_NAME"

definition iot_device_2_client :: client where
  "iot_device_2_client = Client IOT_DEVICE_2_NAME"

subsection \<open>The infinite loop\<close>

text \<open>
  \<^verbatim>\<open>
    if iot_device_1_act_flag:
        iot_device_act(iot_device_1, iot_device_1_feature_switch, iot_device_1_status, iot_device_1_client)
        iot_device_1_act_flag = False
    elif iot_device_2_act_flag:
        iot_device_act(iot_device_2, iot_device_2_feature_switch, iot_device_2_status, iot_device_2_client)
        iot_device_2_act_flag = False
  \<close>
\<close>

definition handle_actuation :: "env \<Rightarrow> unit prog" where
  "handle_actuation env s =
     (if iot_device_1_act_flag s then
        seq (bindp (read_global iot_device_1) (\<lambda>n1.
               iot_device_act env n1 (FeatureSwitch n1) (iot_device_1_status s) iot_device_1_client))
            (assign (\<lambda>s'. s'\<lparr>iot_device_1_act_flag := False\<rparr>)) s
      else if iot_device_2_act_flag s then
        seq (bindp (read_global iot_device_2) (\<lambda>n2.
               iot_device_act env n2 (FeatureSwitch n2) (iot_device_2_status s) iot_device_2_client))
            (assign (\<lambda>s'. s'\<lparr>iot_device_2_act_flag := False\<rparr>)) s
      else ret () s)"

text \<open>
  One pass through the body of \<^verbatim>\<open>while True\<close>:
  \<^verbatim>\<open>
    if iot_device_1.wait_for_notifications(0.05) or iot_device_2.wait_for_notifications(0.05):
        continue
  \<close>
  and then the actuation above. \<^verbatim>\<open>or\<close> does not evaluate its second operand when the
  first is true.
\<close>

definition loop_iteration :: "env \<Rightarrow> unit prog" where
  "loop_iteration env =
     bindp (read_global iot_device_1) (\<lambda>n1.
     bindp (wait_for_notifications env n1) (\<lambda>notified_1.
       if notified_1 then ret ()
       else
         bindp (read_global iot_device_2) (\<lambda>n2.
         bindp (wait_for_notifications env n2) (\<lambda>notified_2.
           if notified_2 then ret () else handle_actuation env))))"

text \<open>
  The loop ends only by an exception. Its run is followed for as many passes as
  \<open>rounds\<close> has elements; the element of a pass holds the payloads on the act topic
  whose callbacks ran since the pass before. The result \<open>Inr ()\<close> says that the loop is
  still running after these passes.
\<close>

fun main_loop :: "env \<Rightarrow> string list list \<Rightarrow> unit prog" where
  "main_loop env [] s = (Inr (), s)"
| "main_loop env (payloads # rounds) s =
     (case loop_iteration env (on_act_messages env payloads s) of
        (Inl e, s') \<Rightarrow> (Inl e, s')
      | (Inr _, s') \<Rightarrow> main_loop env rounds s')"

subsection \<open>Reading input\<close>

text \<open>\<^verbatim>\<open>try: body except ...: handler\<close>; the handler re-raises what no clause matches.\<close>

definition catch :: "'a prog \<Rightarrow> (pyexn \<Rightarrow> 'a prog) \<Rightarrow> 'a prog" where
  "catch body handler s = (case body s of (Inl e, s') \<Rightarrow> handler e s' | (Inr x, s') \<Rightarrow> (Inr x, s'))"

text \<open>
  The \<^verbatim>\<open>for opt, arg in opts\<close> loop; \<^verbatim>\<open>exit(0)\<close> raises \<open>SystemExit 0\<close>.
\<close>

fun read_opts :: "(string \<times> string) list \<Rightarrow> unit prog" where
  "read_opts [] = ret ()"
| "read_opts ((opt, arg) # opts) =
     seq (if opt = ''-h'' \<or> opt = ''--help''
          then seq (print_line HELP) (raise (SystemExit 0)) else ret ())
    (seq (if opt = ''-e'' \<or> opt = ''--endpoint''
          then assign (\<lambda>s. s\<lparr>endpoint := Some arg\<rparr>) else ret ())
    (seq (if opt = ''-r'' \<or> opt = ''--rootCA''
          then assign (\<lambda>s. s\<lparr>root_ca_path := Some arg\<rparr>) else ret ())
         (read_opts opts)))"

text \<open>
  The second half of \<^verbatim>\<open>read_input\<close>. \<^verbatim>\<open>not endpoint\<close> is true of the empty string;
  the globals are read, so one that no option assigned raises \<open>NameError\<close>.
\<close>

definition check_configuration :: "unit prog" where
  "check_configuration =
     bindp (read_global endpoint) (\<lambda>ep.
     bindp (if ep = [] then seq (print_line (''Missing '' @ [CHR 0x27] @ ''-e'' @ [CHR 0x27]
                                   @ '' or '' @ [CHR 0x27] @ ''--endpoint'' @ [CHR 0x27]))
                                (ret True)
            else ret False) (\<lambda>missing_1.
     bindp (read_global root_ca_path) (\<lambda>rp.
     bindp (if rp = [] then seq (print_line (''Missing '' @ [CHR 0x27] @ ''-r'' @ [CHR 0x27]
                                   @ '' or '' @ [CHR 0x27] @ ''--rootCA'' @ [CHR 0x27]))
                                (ret True)
            else ret missing_1) (\<lambda>missing_configuration.
     if missing_configuration then raise (SystemExit 2) else ret ()))))"

definition read_input :: "env \<Rightarrow> string list \<Rightarrow> unit prog" where
  "read_input env argv =
     seq (catch
            (case getopt env argv of
               Inl e \<Rightarrow> raise e
             | Inr (opts, args) \<Rightarrow>
                 if length opts = 0 then raise GetoptError else read_opts opts)
            (\<lambda>e. if e = GetoptError then seq (print_line USAGE) (raise (SystemExit 1))
                 else raise e))
         check_configuration"

subsection \<open>Main application\<close>

definition initial_state :: "unit prog" where
  "initial_state =
     assign (\<lambda>s. s\<lparr>iot_device_1_status := OFF, iot_device_2_status := OFF,
                    iot_device_1_act_flag := False, iot_device_2_act_flag := False\<rparr>)"

definition print_intro :: "unit prog" where
  "print_intro = print_line (NL @ INTRO @ NL)"

text \<open>
  Checking discovered devices:
  \<^verbatim>\<open>
    for discovered in discovered_devices:
        if discovered.get_tag() == IOT_DEVICE_1_MAC:
            iot_device_1 = discovered; devices.append(iot_device_1)
        elif discovered.get_tag() == IOT_DEVICE_2_MAC:
            iot_device_2 = discovered; devices.append(iot_device_2)
        if len(devices) == 2: break
  \<close>
\<close>

fun check_discovered :: "node list \<Rightarrow> node list \<Rightarrow> node list prog" where
  "check_discovered [] devices s = (Inr devices, s)"
| "check_discovered (discovered # rest) devices s =
     (let (devices', s') =
            (if get_tag discovered = IOT_DEVICE_1_MAC
               then (devices @ [discovered], s\<lparr>iot_device_1 := Some discovered\<rparr>)
             else if get_tag discovered = IOT_DEVICE_2_MAC
               then (devices @ [discovered], s\<lparr>iot_device_2 := Some discovered\<rparr>)
             else (devices, s))
      in if length devices' = 2 then (Inr devices', s') else check_discovered rest devices' s')"

fun connect_devices :: "env \<Rightarrow> node list \<Rightarrow> unit prog" where
  "connect_devices env [] = ret ()"
| "connect_devices env (device # devices) =
     seq (sdk_call env (NodeAddListener device))
    (seq (print_line (''Connecting to '' @ get_name device @ ''...''))
    (seq (sdk_call env (NodeConnect device))
    (seq (print_line ''Connection done.'')
         (connect_devices env devices))))"

text \<open>
  From \<^verbatim>\<open>Manager.instance()\<close> to \<^verbatim>\<open>print('Bluetooth setup complete.')\<close>. The manager's
  and the nodes' listeners only print what the SDK tells them; their lines are left
  out of the log. \<^verbatim>\<open>sys.exit(0)\<close> raises \<open>SystemExit 0\<close>.
\<close>

definition bluetooth_setup :: "env \<Rightarrow> unit prog" where
  "bluetooth_setup env =
     seq (sdk_call env ManagerInstance)
    (seq (sdk_call env ManagerAddListener)
    (seq (print_line (''Scanning Bluetooth devices...'' @ NL))
    (seq (sdk_call env (StartDiscovery False SCANNING_TIME_s))
    (seq (sdk_call env (Sleep SCANNING_TIME_s))
    (seq (sdk_call env StopDiscovery)
    (seq (sdk_call env GetNodes)
    (if discovered_nodes env = [] then
       seq (print_line (NL @ ''No Bluetooth devices found. Exiting...'' @ NL)) (raise (SystemExit 0))
     else
       bindp (check_discovered (discovered_nodes env) []) (\<lambda>devices.
       if length devices < 2 then
         seq (print_line (NL @ ''Bluetooth setup incomplete. Exiting...'' @ NL)) (raise (SystemExit 0))
       else
         seq (connect_devices env devices)
        (seq (print_line (NL @ ''Getting features...''))
        (bindp (read_global iot_device_1) (\<lambda>n1.
         seq (sdk_call env (GetFeature n1))
        (bindp (read_global iot_device_2) (\<lambda>n2.
         seq (sdk_call env (GetFeature n2))
        (seq (print_line ''Resetting switches...'')
        (seq (\<lambda>s. sdk_call env (WriteSwitchStatus (FeatureSwitch n1)
                                   (status_value (iot_device_1_status s))) s)
        (seq (\<lambda>s. sdk_call env (WriteSwitchStatus (FeatureSwitch n2)
                                   (status_value (iot_device_2_status s))) s)
             (print_line (NL @ ''Bluetooth setup complete.''))))))))))))))))))"

text \<open>
  From \<^verbatim>\<open>AWSGreengrass(endpoint, root_ca_path)\<close> to the two \<^verbatim>\<open>subscribe\<close> calls. From the
  subscriptions on, a message on the act topic runs the callbacks.
\<close>

definition edge_setup :: "env \<Rightarrow> unit prog" where
  "edge_setup env =
     seq (print_line (NL @ ''Initializing Edge Computing...'' @ NL))
    (bindp (read_global endpoint) (\<lambda>ep.
     bindp (read_global root_ca_path) (\<lambda>rp.
     seq (sdk_call env (NewAWSGreengrass ep rp))
    (seq (sdk_call env (GetClient IOT_DEVICE_1_NAME IOT_DEVICE_1_CERTIF_PATH IOT_DEVICE_1_PRIV_K_PATH))
    (seq (sdk_call env (GetClient IOT_DEVICE_2_NAME IOT_DEVICE_2_CERTIF_PATH IOT_DEVICE_2_PRIV_K_PATH))
    (seq (sdk_call env (ClientConnect iot_device_1_client))
    (seq (sdk_call env (ClientConnect iot_device_2_client))
    (seq (sdk_call env (Subscribe iot_device_1_client MQTT_IOT_DEVICE_SWITCH_ACT_TOPIC MQTT_QOS_1 1))
         (sdk_call env (Subscribe iot_device_2_client MQTT_IOT_DEVICE_SWITCH_ACT_TOPIC MQTT_QOS_1 2))))))))))"

text \<open>Resetting shadow states: the documents are built from the status globals as they are then.\<close>

definition reset_shadow_states :: "env \<Rightarrow> unit prog" where
  "reset_shadow_states env =
     seq (\<lambda>s. sdk_call env (UpdateShadowState iot_device_1_client
                 (state_json_str (iot_device_1_status s)) SHADOW_CALLBACK_TIMEOUT_s) s)
    (seq (\<lambda>s. sdk_call env (UpdateShadowState iot_device_2_client
                 (state_json_str (iot_device_2_status s)) SHADOW_CALLBACK_TIMEOUT_s) s)
         (print_line (NL @ ''Edge Computing Initialized.'')))"

text \<open>Handling sensing of devices, and enabling notifications.\<close>

definition enable_sensing :: "env \<Rightarrow> unit prog" where
  "enable_sensing env =
     bindp (read_global iot_device_1) (\<lambda>n1.
     bindp (read_global iot_device_2) (\<lambda>n2.
     seq (sdk_call env (FeatureAddListener (FeatureSwitch n1) iot_device_1_client
                          MQTT_IOT_DEVICE_SWITCH_SENSE_TOPIC))
    (seq (sdk_call env (FeatureAddListener (FeatureSwitch n2) iot_device_2_client
                          MQTT_IOT_DEVICE_SWITCH_SENSE_TOPIC))
    (seq (print_line (NL @ ''Enabling Bluetooth notifications...''))
    (seq (sdk_call env (EnableNotifications n1 (FeatureSwitch n1)))
    (seq (sdk_call env (EnableNotifications n2 (FeatureSwitch n2)))
         (print_line (NL @ ''Demo running ('' @ [CHR 0x22] @ ''CTRL+C'' @ [CHR 0x22]
                        @ '' to quit)...'' @ NL))))))))"

text \<open>
  The body of the \<^verbatim>\<open>try\<close> up to the loop; the callbacks of the payloads \<open>early_acts\<close>
  run after the subscriptions.
\<close>

definition startup :: "env \<Rightarrow> unit prog" where
  "startup env =
     seq (bluetooth_setup env)
    (seq (edge_setup env)
    (seq (assign (on_act_messages env (early_acts env)))
    (seq (reset_shadow_states env)
         (enable_sensing env))))"

text \<open>
  The \<^verbatim>\<open>except\<close> clauses of \<^verbatim>\<open>main\<close>. \<^verbatim>\<open>os._exit(0)\<close> ends the process with status 0,
  as \<open>SystemExit 0\<close> does.
\<close>

fun main_handlers :: "pyexn \<Rightarrow> unit prog" where
  "main_handlers (InvalidOperationException msg) = print_line msg"
| "main_handlers (BTLEException msg) =
     seq (print_line msg) (seq (print_line (''Exiting...'' @ NL)) (raise (SystemExit 0)))"
| "main_handlers (WrongInstantiationException msg) =
     seq (print_line msg) (seq (print_line (''Exiting...'' @ NL)) (raise (SystemExit 0)))"
| "main_handlers KeyboardInterrupt =
     seq (print_line (NL @ ''Exiting...'' @ NL)) (raise (SystemExit 0))"
| "main_handlers e = raise e"

text \<open>
  How a run of \<^verbatim>\<open>main\<close> stands after the passes followed: still in the loop,
  returned, or left by an exception.
\<close>

datatype outcome = Running | Returned | Raised pyexn

fun ended :: "(pyexn + unit) \<times> state \<Rightarrow> outcome \<times> state" where
  "ended (Inl e, s) = (Raised e, s)"
| "ended (Inr u, s) = (Returned, s)"

text \<open>The loop inside the \<^verbatim>\<open>try\<close> of \<^verbatim>\<open>main\<close>: an exception that leaves it meets the handlers.\<close>

definition guarded_loop :: "env \<Rightarrow> string list list \<Rightarrow> state \<Rightarrow> outcome \<times> state" where
  "guarded_loop env rounds s =
     (case main_loop env rounds s of
        (Inr u, s') \<Rightarrow> (Running, s')
      | (Inl e, s') \<Rightarrow> ended (main_handlers e s'))"

text \<open>
  \<^verbatim>\<open>main(argv)\<close>: the initial state, the intro and \<^verbatim>\<open>read_input\<close> stand before the
  \<^verbatim>\<open>try\<close>, the startup and the loop inside it. \<^verbatim>\<open>configure_logging()\<close> sets up a logger
  that nothing writes to and is left out.
\<close>

definition main :: "env \<Rightarrow> string list list \<Rightarrow> string list \<Rightarrow> state \<Rightarrow> outcome \<times> state" where
  "main env rounds argv s =
     (case seq initial_state (seq print_intro (read_input env argv)) s of
        (Inl e, s1) \<Rightarrow> (Raised e, s1)
      | (Inr u, s1) \<Rightarrow>
          (case startup env s1 of
             (Inl e, s2) \<Rightarrow> ended (main_handlers e s2)
           | (Inr u, s2) \<Rightarrow> guarded_loop env rounds s2))"


text \<open>The state of a process that has not run a statement yet.\<close>

definition fresh :: state where
  "fresh = \<lparr>endpoint = None, root_ca_path = None, iot_device_1 = None, iot_device_2 = None,
            iot_device_1_status = OFF, iot_device_2_status = OFF,
            iot_device_1_act_flag = False, iot_device_2_act_flag = False, log = []\<rparr>"

text \<open>
  The script's last lines: \<^verbatim>\<open>main(sys.argv[1:])\<close>, and a \<^verbatim>\<open>KeyboardInterrupt\<close> that leaves
  \<^verbatim>\<open>main\<close> ends the process with status 0.
\<close>

definition script :: "env \<Rightarrow> string list list \<Rightarrow> string list \<Rightarrow> state \<Rightarrow> outcome \<times> state" where
  "script env rounds argv s =
     (case main env rounds argv s of
        (Raised KeyboardInterrupt, s') \<Rightarrow> (Raised (SystemExit 0), s')
      | r \<Rightarrow> r)"

subsection \<open>A concrete environment for the examples\<close>

text \<open>
  The examples below run the definitions on concrete inputs, so they need concrete
  library functions. \<open>loads_flat\<close> decodes a JSON object of one member whose key and
  value are strings without escapes, and raises \<open>ValueError\<close> on anything else;
  \<open>dumps_flat\<close> writes such an object as \<^verbatim>\<open>json.dumps\<close> does; \<open>getopt_short\<close> reads a
  command line in which every option is an argument of its own (\<^verbatim>\<open>-h\<close>, \<^verbatim>\<open>-w\<close>) or is
  followed by its value in the next argument (\<^verbatim>\<open>-e\<close>, \<^verbatim>\<open>-k\<close>, \<^verbatim>\<open>-c\<close>, \<^verbatim>\<open>-r\<close>), and raises
  \<open>GetoptError\<close> on any other argument that starts with a dash. They stand in for
  \<^verbatim>\<open>json.loads\<close>, \<^verbatim>\<open>json.dumps\<close> and \<^verbatim>\<open>getopt.getopt(argv, "hwe:k:c:r:", ...)\<close> on these
  inputs only; no theorem about the script depends on them.
\<close>

definition skip_ws :: "string \<Rightarrow> string" where
  "skip_ws = dropWhile (\<lambda>c. c = CHR '' '' \<or> c = CHR 0x09 \<or> c = CHR 0x0A \<or> c = CHR 0x0D)"

fun take_string :: "string \<Rightarrow> (string \<times> string) option" where
  "take_string [] = None"
| "take_string (c # cs) =
     (if c = CHR 0x22 then Some ([], cs)
      else if c = CHR 0x5C then None
      else (case take_string cs of None \<Rightarrow> None | Some (w, rest) \<Rightarrow> Some (c # w, rest)))"

definition quoted :: "string \<Rightarrow> (string \<times> string) option" where
  "quoted text = (case skip_ws text of c # cs \<Rightarrow> if c = CHR 0x22 then take_string cs else None | [] \<Rightarrow> None)"

definition symbol :: "char \<Rightarrow> string \<Rightarrow> string option" where
  "symbol c text = (case skip_ws text of d # ds \<Rightarrow> if d = c then Some ds else None | [] \<Rightarrow> None)"

definition loads_flat :: "string \<Rightarrow> pyexn + json" where
  "loads_flat text =
     (case symbol CHR ''{'' text of
        None \<Rightarrow> Inl ValueError
      | Some r1 \<Rightarrow>
         (case quoted r1 of
            None \<Rightarrow> Inl ValueError
          | Some (k, r2) \<Rightarrow>
             (case symbol CHR '':'' r2 of
                None \<Rightarrow> Inl ValueError
              | Some r3 \<Rightarrow>
                 (case quoted r3 of
                    None \<Rightarrow> Inl ValueError
                  | Some (v, r4) \<Rightarrow>
                     (case symbol CHR ''}'' r4 of
                        None \<Rightarrow> Inl ValueError
                      | Some r5 \<Rightarrow>
                          if skip_ws r5 = [] then Inr (JObject [(k, JString v)])
                          else Inl ValueError)))))"

fun dumps_flat :: "json \<Rightarrow> string" where
  "dumps_flat (JObject [(k, JString v)]) = ''{\"'' @ k @ ''\": \"'' @ v @ ''\"}''"
| "dumps_flat _ = []"

fun getopt_short :: "string list \<Rightarrow> pyexn + ((string \<times> string) list \<times> string list)" where
  "getopt_short [] = Inr ([], [])"
| "getopt_short (a # args) =
     (if a = ''-h'' \<or> a = ''-w'' then
        (case getopt_short args of
           Inl e \<Rightarrow> Inl e
         | Inr (opts, rest) \<Rightarrow> Inr ((a, []) # opts, rest))
      else if a = ''-e'' \<or> a = ''-k'' \<or> a = ''-c'' \<or> a = ''-r'' then
        (case args of
           [] \<Rightarrow> Inl GetoptError
         | v # args' \<Rightarrow>
             (case getopt_short args' of
                Inl e \<Rightarrow> Inl e
              | Inr (opts, rest) \<Rightarrow> Inr ((a, v) # opts, rest)))
      else if take 1 a = ''-'' \<and> a \<noteq> ''-'' then Inl GetoptError
      else Inr ([], a # args))"

text \<open>
  Both devices are discovered, no SDK call raises, no notification is waiting and
  no message arrives during startup. The feature data field name is the one that the
  example payload of the specification uses, \<open>switch_status_value\<close>.
\<close>

definition node_1 :: node where
  "node_1 = Node IOT_DEVICE_1_MAC ''Switch_1''"

definition node_2 :: node where
  "node_2 = Node IOT_DEVICE_2_MAC ''Switch_2''"

definition quiet_env :: env where
  "quiet_env = \<lparr>sdk_raises = (\<lambda>calls ev. None),
                discovered_nodes = [node_1, node_2],
                notification = (\<lambda>calls n. None),
                json_loads = loads_flat,
                json_dumps = dumps_flat,
                getopt = getopt_short,
                FEATURE_DATA_NAME = ''switch_status_value'',
                field_name = ''switch_status_value'',
                early_acts = []\<rparr>"

text \<open>A state inside the loop: both nodes bound, nothing pending.\<close>

definition idle :: state where
  "idle = \<lparr>endpoint = Some ''endpoint.example'', root_ca_path = Some ''root.pem'',
           iot_device_1 = Some node_1, iot_device_2 = Some node_2,
           iot_device_1_status = OFF, iot_device_2_status = OFF,
           iot_device_1_act_flag = False, iot_device_2_act_flag = False, log = []\<rparr>"

text \<open>
  Three variations: a notification is waiting on the first device at every wait; the
  literal act message for the first device arrives right after the subscriptions;
  a write that follows a \<^verbatim>\<open>disable_notifications\<close> raises.
\<close>

definition noisy_env :: env where
  "noisy_env = quiet_env\<lparr>notification :=
     (\<lambda>calls n. if n = node_1 then Some (Sample 1000 1) else None)\<rparr>"

definition racing_env :: env where
  "racing_env = quiet_env\<lparr>early_acts := [''{\"switch_status_value\":\"(1000) IoT_Device_1 1\"}'']\<rparr>"

definition failing_env :: env where
  "failing_env = quiet_env\<lparr>sdk_raises :=
     (\<lambda>calls ev. case ev of
        WriteSwitchStatus f v \<Rightarrow>
          (case rev calls of
             DisableNotifications n f' # earlier \<Rightarrow> Some (BTLEException ''Failed to write'')
           | _ \<Rightarrow> None)
      | _ \<Rightarrow> None)\<rparr>"

text \<open>
  The environment with the name that the BlueST SDK gives the constant: its
  \<^verbatim>\<open>feature_switch.py\<close> has \<^verbatim>\<open>FEATURE_DATA_NAME = "Status"\<close>, which is also the name of
  the feature's first field.
\<close>

definition sdk_env :: env where
  "sdk_env = quiet_env\<lparr>FEATURE_DATA_NAME := ''Status'', field_name := ''Status''\<rparr>"

subsection \<open>The options that the loop of \<open>read_input\<close> keeps\<close>


subsection \<open>Kinds of calls\<close>

text \<open>A line printed; a call made before the switches are reset; a call of the sensing path.\<close>

fun is_print :: "event \<Rightarrow> bool" where
  "is_print (Print text) = True"
| "is_print _ = False"

fun setup_call :: "event \<Rightarrow> bool" where
  "setup_call (Print text) = True"
| "setup_call ManagerInstance = True"
| "setup_call ManagerAddListener = True"
| "setup_call (StartDiscovery b t) = True"
| "setup_call (Sleep t) = True"
| "setup_call StopDiscovery = True"
| "setup_call GetNodes = True"
| "setup_call (NodeAddListener n) = True"
| "setup_call (NodeConnect n) = True"
| "setup_call (GetFeature n) = True"
| "setup_call _ = False"

fun sensing_call :: "event \<Rightarrow> bool" where
  "sensing_call (WaitForNotifications n) = True"
| "sensing_call (Publish c topic payload qos) = True"
| "sensing_call _ = False"

text \<open>
  A write to a switch passes 0 or 1, and a shadow update passes one of the two
  documents with \<^verbatim>\<open>"switch_status":0\<close> and \<^verbatim>\<open>"switch_status":1\<close>.
\<close>

fun uses_0_or_1 :: "event \<Rightarrow> bool" where
  "uses_0_or_1 (WriteSwitchStatus f v) = (v = 0 \<or> v = 1)"
| "uses_0_or_1 (UpdateShadowState c document timeout) =
     (document = ''{\"state\":{\"desired\":{\"switch_status\":0}}}'' \<or>
      document = ''{\"state\":{\"desired\":{\"switch_status\":1}}}'')"
| "uses_0_or_1 _ = True"

subsection \<open>What a piece of the script does to the log and to the globals\<close>

text \<open>
  \<open>appends P m\<close>: whatever the state, \<open>m\<close> only adds calls to the log, and each call it
  adds satisfies \<open>P\<close>. \<open>keeps_globals m\<close>: \<open>m\<close> changes nothing but the log.
\<close>

definition appends :: "(event \<Rightarrow> bool) \<Rightarrow> 'a prog \<Rightarrow> bool" where
  "appends P m = (\<forall>s. \<exists>calls. log (snd (m s)) = log s @ calls \<and> list_all P calls)"

definition keeps_globals :: "'a prog \<Rightarrow> bool" where
  "keeps_globals m = (\<forall>s. snd (m s) = s\<lparr>log := log (snd (m s))\<rparr>)"

text \<open>\<open>preserves f m\<close>: \<open>m\<close> leaves the part \<open>f\<close> of the state as it was.\<close>

definition preserves :: "(state \<Rightarrow> 'b) \<Rightarrow> 'a prog \<Rightarrow> bool" where
  "preserves f m = (\<forall>s. f (snd (m s)) = f s)"

text \<open>The status and flag globals together: what the callbacks write and the loop reads.\<close>

definition act_globals :: "state \<Rightarrow> SwitchStatus \<times> SwitchStatus \<times> bool \<times> bool" where
  "act_globals s = (iot_device_1_status s, iot_device_2_status s,
                    iot_device_1_act_flag s, iot_device_2_act_flag s)"

section \<open>Properties\<close>

subsection \<open>Sequencing\<close>

lemma bindp_Inr_iff:
  "bindp m k s = (Inr y, s') \<longleftrightarrow> (\<exists>x s1. m s = (Inr x, s1) \<and> k x s1 = (Inr y, s'))"
  by (auto simp: bindp_def split: prod.splits sum.splits)

lemma seq_Inr_iff:
  "seq m k s = (Inr y, s') \<longleftrightarrow> (\<exists>s1. m s = (Inr (), s1) \<and> k s1 = (Inr y, s'))"
  by (simp add: seq_def bindp_Inr_iff)

lemma sdk_call_Inr_iff:
  "sdk_call env ev s = (Inr u, s') \<longleftrightarrow>
     sdk_raises env (log s) ev = None \<and> s' = s\<lparr>log := log s @ [ev]\<rparr>"
  by (auto simp: sdk_call_def split: option.splits)

subsection \<open>The callbacks\<close>

lemma unbound_without_feature_name:
  "\<not> py_in (FEATURE_DATA_NAME env) payload \<Longrightarrow>
     get_client_id_and_switch_status env payload = Inr None"
  by (simp add: get_client_id_and_switch_status_def)

text \<open>
  C1. A payload that does not contain the feature data field name leaves both
  devices' status and act flag as they were, but the callbacks do not return: the
  test \<^verbatim>\<open>client_id == IOT_DEVICE_N_NAME\<close> stands outside the \<^verbatim>\<open>if\<close> that binds
  \<open>client_id\<close>, so each callback raises \<open>UnboundLocalError\<close> to its caller.
\<close>

theorem callbacks_raise_without_feature_name:
  "\<not> py_in (FEATURE_DATA_NAME env) payload \<Longrightarrow>
     iot_device_1_callback env payload s = (Inl UnboundLocalError, s) \<and>
     iot_device_2_callback env payload s = (Inl UnboundLocalError, s)"
  by (simp add: iot_device_1_callback_def iot_device_2_callback_def unbound_without_feature_name)

theorem callbacks_raise_without_feature_name_witness:
  "\<not> py_in (FEATURE_DATA_NAME quiet_env) ''{\"foo\": \"bar\"}'' \<and>
     iot_device_1_callback quiet_env ''{\"foo\": \"bar\"}'' idle = (Inl UnboundLocalError, idle) \<and>
     iot_device_2_callback quiet_env ''{\"foo\": \"bar\"}'' idle = (Inl UnboundLocalError, idle)"
proof -
  have h: "\<not> py_in (FEATURE_DATA_NAME quiet_env) ''{\"foo\": \"bar\"}''"
    by (simp add: quiet_env_def)
  from callbacks_raise_without_feature_name [OF h, of idle] h show ?thesis by simp
qed

lemma bound_of_message:
  assumes "py_in (FEATURE_DATA_NAME env) payload"
      and "json_loads env payload = Inr (JObject members)"
      and "map_of members (FEATURE_DATA_NAME env) = Some (JString text)"
      and "py_split CHR '' '' text = [ts, client_id, switch_status]"
  shows "get_client_id_and_switch_status env payload = Inr (Some (client_id, switch_status))"
  using assms by (simp add: get_client_id_and_switch_status_def)

text \<open>
  C4. A message that holds the feature field, with a value of the three fields
  timestamp, device identifier and switch status: the callback of the device named
  stores \<open>OFF\<close> for the token \<open>0\<close> and \<open>ON\<close> for every other token, and sets the act
  flag of that device.
\<close>

theorem callbacks_decode_switch_status:
  assumes "py_in (FEATURE_DATA_NAME env) payload"
      and "json_loads env payload = Inr (JObject members)"
      and "map_of members (FEATURE_DATA_NAME env) = Some (JString text)"
      and "py_split CHR '' '' text = [ts, client_id, switch_status]"
  shows "(client_id = IOT_DEVICE_1_NAME \<longrightarrow>
            iot_device_1_callback env payload s =
              (Inr (), s\<lparr>iot_device_1_status := (if switch_status = ''0'' then OFF else ON),
                         iot_device_1_act_flag := True\<rparr>)) \<and>
         (client_id = IOT_DEVICE_2_NAME \<longrightarrow>
            iot_device_2_callback env payload s =
              (Inr (), s\<lparr>iot_device_2_status := (if switch_status = ''0'' then OFF else ON),
                         iot_device_2_act_flag := True\<rparr>))"
  using bound_of_message [OF assms]
  by (simp add: iot_device_1_callback_def iot_device_2_callback_def)

lemma loads_flat_example:
  "loads_flat ''{\"switch_status_value\":\"(7) IoT_Device_2 ON\"}'' =
     Inr (JObject [(''switch_status_value'', JString ''(7) IoT_Device_2 ON'')])"
  by (simp add: loads_flat_def symbol_def quoted_def skip_ws_def)

theorem callbacks_decode_switch_status_witness:
  "py_in (FEATURE_DATA_NAME quiet_env) ''{\"switch_status_value\":\"(7) IoT_Device_2 ON\"}'' \<and>
   json_loads quiet_env ''{\"switch_status_value\":\"(7) IoT_Device_2 ON\"}'' =
     Inr (JObject [(''switch_status_value'', JString ''(7) IoT_Device_2 ON'')]) \<and>
   py_split CHR '' '' ''(7) IoT_Device_2 ON'' = [''(7)'', ''IoT_Device_2'', ''ON''] \<and>
   iot_device_2_callback quiet_env ''{\"switch_status_value\":\"(7) IoT_Device_2 ON\"}'' idle =
     (Inr (), idle\<lparr>iot_device_2_status := ON, iot_device_2_act_flag := True\<rparr>)"
proof -
  have a: "py_in (FEATURE_DATA_NAME quiet_env) ''{\"switch_status_value\":\"(7) IoT_Device_2 ON\"}''"
    by (simp add: quiet_env_def)
  have b: "json_loads quiet_env ''{\"switch_status_value\":\"(7) IoT_Device_2 ON\"}'' =
     Inr (JObject [(''switch_status_value'', JString ''(7) IoT_Device_2 ON'')])"
    by (simp add: quiet_env_def loads_flat_example)
  have c: "map_of [(''switch_status_value'', JString ''(7) IoT_Device_2 ON'')]
             (FEATURE_DATA_NAME quiet_env) = Some (JString ''(7) IoT_Device_2 ON'')"
    by (simp add: quiet_env_def)
  have d: "py_split CHR '' '' ''(7) IoT_Device_2 ON'' = [''(7)'', ''IoT_Device_2'', ''ON'']"
    by simp
  from callbacks_decode_switch_status [OF a b c d, of idle] a b d
  show ?thesis by (simp add: IOT_DEVICE_2_NAME_def)
qed

lemma py_in_append: "py_in needle (before @ needle @ rest)"
proof (induction before)
  case Nil
  show ?case
  proof (cases "needle @ rest")
    case Nil
    then show ?thesis by simp
  next
    case (Cons c cs)
    have "take (length needle) (needle @ rest) = needle" by simp
    with Cons show ?thesis by simp
  qed
next
  case (Cons c before)
  then show ?case by simp
qed

text \<open>
  C5, as the code has it. The message of the claim under the key that the callbacks
  look for, the feature data field name (\<open>Status\<close> in the BlueST SDK), with
  \<^verbatim>\<open>json.loads\<close> decoding the payload to its one member: the first device's callback
  sets its status to \<open>ON\<close> and its act flag, the second device's callback returns and
  changes nothing.
\<close>

theorem payload_under_field_name_sets_device_1_on:
  assumes "payload = ''{\"'' @ FEATURE_DATA_NAME env @ ''\":\"(1000) IoT_Device_1 1\"}''"
      and "json_loads env payload =
             Inr (JObject [(FEATURE_DATA_NAME env, JString ''(1000) IoT_Device_1 1'')])"
  shows "iot_device_1_callback env payload s =
           (Inr (), s\<lparr>iot_device_1_status := ON, iot_device_1_act_flag := True\<rparr>) \<and>
         iot_device_2_callback env payload s = (Inr (), s) \<and>
         on_act_message env payload s =
           s\<lparr>iot_device_1_status := ON, iot_device_1_act_flag := True\<rparr>"
proof -
  have "py_in (FEATURE_DATA_NAME env) payload"
    unfolding assms(1) by (rule py_in_append)
  then have "get_client_id_and_switch_status env payload = Inr (Some (''IoT_Device_1'', ''1''))"
    using assms(2) by (simp add: get_client_id_and_switch_status_def)
  then show ?thesis
    by (simp add: iot_device_1_callback_def iot_device_2_callback_def on_act_message_def
          IOT_DEVICE_1_NAME_def IOT_DEVICE_2_NAME_def)
qed

theorem payload_under_field_name_sets_device_1_on_witness:
  "FEATURE_DATA_NAME sdk_env = ''Status'' \<and>
   json_loads sdk_env ''{\"Status\":\"(1000) IoT_Device_1 1\"}'' =
     Inr (JObject [(''Status'', JString ''(1000) IoT_Device_1 1'')]) \<and>
   iot_device_1_callback sdk_env ''{\"Status\":\"(1000) IoT_Device_1 1\"}'' idle =
     (Inr (), idle\<lparr>iot_device_1_status := ON, iot_device_1_act_flag := True\<rparr>) \<and>
   iot_device_2_callback sdk_env ''{\"Status\":\"(1000) IoT_Device_1 1\"}'' idle = (Inr (), idle) \<and>
   on_act_message sdk_env ''{\"Status\":\"(1000) IoT_Device_1 1\"}'' idle =
     idle\<lparr>iot_device_1_status := ON, iot_device_1_act_flag := True\<rparr>"
proof -
  have n: "FEATURE_DATA_NAME sdk_env = ''Status''"
    by (simp add: sdk_env_def)
  have a: "''{\"Status\":\"(1000) IoT_Device_1 1\"}'' =
           ''{\"'' @ FEATURE_DATA_NAME sdk_env @ ''\":\"(1000) IoT_Device_1 1\"}''"
    by (simp add: n)
  have b: "json_loads sdk_env ''{\"Status\":\"(1000) IoT_Device_1 1\"}'' =
     Inr (JObject [(FEATURE_DATA_NAME sdk_env, JString ''(1000) IoT_Device_1 1'')])"
    by (simp add: sdk_env_def quiet_env_def loads_flat_def symbol_def quoted_def skip_ws_def)
  from payload_under_field_name_sets_device_1_on [OF a b, of idle] n b
  show ?thesis by simp
qed

text \<open>
  C5 as stated fails. The literal payload of the claim has the key
  \<open>switch_status_value\<close>, in which the SDK's field name \<open>Status\<close> does not occur: the
  \<^verbatim>\<open>if\<close> of the callbacks is not taken, both callbacks raise \<open>UnboundLocalError\<close>, and
  the first device's status and act flag stay as they were.
\<close>

theorem literal_payload_is_not_routed:
  "iot_device_1_callback sdk_env ''{\"switch_status_value\":\"(1000) IoT_Device_1 1\"}'' idle =
     (Inl UnboundLocalError, idle) \<and>
   iot_device_2_callback sdk_env ''{\"switch_status_value\":\"(1000) IoT_Device_1 1\"}'' idle =
     (Inl UnboundLocalError, idle) \<and>
   on_act_message sdk_env ''{\"switch_status_value\":\"(1000) IoT_Device_1 1\"}'' idle = idle \<and>
   iot_device_1_status idle = OFF \<and> \<not> iot_device_1_act_flag idle"
proof -
  have "\<not> py_in (FEATURE_DATA_NAME sdk_env) ''{\"switch_status_value\":\"(1000) IoT_Device_1 1\"}''"
    by (simp add: sdk_env_def)
  then have "get_client_id_and_switch_status sdk_env
               ''{\"switch_status_value\":\"(1000) IoT_Device_1 1\"}'' = Inr None"
    by (rule unbound_without_feature_name)
  then show ?thesis
    by (simp add: iot_device_1_callback_def iot_device_2_callback_def on_act_message_def idle_def)
qed

subsection \<open>Applying an act\<close>

lemma iot_device_act_returns:
  assumes "sdk_raises env (log s) (DisableNotifications d f) = None"
      and "sdk_raises env (log s @ [DisableNotifications d f]) (WriteSwitchStatus f (status_value st)) = None"
      and "sdk_raises env (log s @ [DisableNotifications d f, WriteSwitchStatus f (status_value st)])
             (EnableNotifications d f) = None"
  shows "snd (iot_device_act env d f st c s) =
           s\<lparr>log := log s @ [DisableNotifications d f, WriteSwitchStatus f (status_value st),
                             EnableNotifications d f,
                             UpdateShadowState c (state_json_str st) SHADOW_CALLBACK_TIMEOUT_s]\<rparr>"
  using assms
  by (simp add: iot_device_act_def seq_def bindp_def sdk_call_def split: option.splits)

lemma iot_device_act_prefix:
  "\<exists>k. 1 \<le> k \<and> snd (iot_device_act env d f st c s) =
           s\<lparr>log := log s @ take k [DisableNotifications d f, WriteSwitchStatus f (status_value st),
                             EnableNotifications d f,
                             UpdateShadowState c (state_json_str st) SHADOW_CALLBACK_TIMEOUT_s]\<rparr>"
proof (cases "sdk_raises env (log s) (DisableNotifications d f)")
  case (Some e)
  then have "snd (iot_device_act env d f st c s) = s\<lparr>log := log s @ [DisableNotifications d f]\<rparr>"
    by (simp add: iot_device_act_def seq_def bindp_def sdk_call_def)
  then show ?thesis by (intro exI [of _ 1]) simp
next
  case a: None
  show ?thesis
  proof (cases "sdk_raises env (log s @ [DisableNotifications d f]) (WriteSwitchStatus f (status_value st))")
    case (Some e)
    with a have "snd (iot_device_act env d f st c s) =
        s\<lparr>log := log s @ [DisableNotifications d f, WriteSwitchStatus f (status_value st)]\<rparr>"
      by (simp add: iot_device_act_def seq_def bindp_def sdk_call_def)
    then show ?thesis by (intro exI [of _ 2]) simp
  next
    case b: None
    show ?thesis
    proof (cases "sdk_raises env (log s @ [DisableNotifications d f, WriteSwitchStatus f (status_value st)])
             (EnableNotifications d f)")
      case (Some e)
      with a b have "snd (iot_device_act env d f st c s) =
          s\<lparr>log := log s @ [DisableNotifications d f, WriteSwitchStatus f (status_value st),
                            EnableNotifications d f]\<rparr>"
        by (simp add: iot_device_act_def seq_def bindp_def sdk_call_def)
      then show ?thesis by (intro exI [of _ 3]) simp
    next
      case None
      from iot_device_act_returns [OF a b None] show ?thesis
        by (intro exI [of _ 4]) simp
    qed
  qed
qed

text \<open>
  C2. Applying an act calls \<^verbatim>\<open>disable_notifications\<close>, \<^verbatim>\<open>write_switch_status\<close>,
  \<^verbatim>\<open>enable_notifications\<close> and then \<^verbatim>\<open>update_shadow_state\<close>, in this order and with
  nothing between them: the calls it adds to the log are a beginning of that list
  (it is cut where a call raises), and the whole list when the three calls to the
  device return. No publish of a sense event stands between the disable and the
  enable, and nothing but the log changes.
\<close>

theorem iot_device_act_call_sequence:
  "(\<exists>k. 1 \<le> k \<and> snd (iot_device_act env d f st c s) =
           s\<lparr>log := log s @ take k [DisableNotifications d f, WriteSwitchStatus f (status_value st),
                             EnableNotifications d f,
                             UpdateShadowState c (state_json_str st) SHADOW_CALLBACK_TIMEOUT_s]\<rparr>) \<and>
   (sdk_raises env (log s) (DisableNotifications d f) = None \<and>
    sdk_raises env (log s @ [DisableNotifications d f]) (WriteSwitchStatus f (status_value st)) = None \<and>
    sdk_raises env (log s @ [DisableNotifications d f, WriteSwitchStatus f (status_value st)])
             (EnableNotifications d f) = None \<longrightarrow>
    snd (iot_device_act env d f st c s) =
           s\<lparr>log := log s @ [DisableNotifications d f, WriteSwitchStatus f (status_value st),
                             EnableNotifications d f,
                             UpdateShadowState c (state_json_str st) SHADOW_CALLBACK_TIMEOUT_s]\<rparr>)"
  using iot_device_act_prefix iot_device_act_returns by blast

theorem iot_device_act_call_sequence_witness:
  "sdk_raises quiet_env (log idle) (DisableNotifications node_1 (FeatureSwitch node_1)) = None \<and>
   sdk_raises quiet_env (log idle @ [DisableNotifications node_1 (FeatureSwitch node_1)])
     (WriteSwitchStatus (FeatureSwitch node_1) (status_value ON)) = None \<and>
   sdk_raises quiet_env (log idle @ [DisableNotifications node_1 (FeatureSwitch node_1),
        WriteSwitchStatus (FeatureSwitch node_1) (status_value ON)])
     (EnableNotifications node_1 (FeatureSwitch node_1)) = None \<and>
   log (snd (iot_device_act quiet_env node_1 (FeatureSwitch node_1) ON iot_device_1_client idle)) =
     [DisableNotifications node_1 (FeatureSwitch node_1),
      WriteSwitchStatus (FeatureSwitch node_1) 1,
      EnableNotifications node_1 (FeatureSwitch node_1),
      UpdateShadowState iot_device_1_client ''{\"state\":{\"desired\":{\"switch_status\":1}}}'' 5]"
proof -
  have a: "sdk_raises quiet_env calls ev = None" for calls ev
    by (simp add: quiet_env_def)
  have b: "state_json_str ON = ''{\"state\":{\"desired\":{\"switch_status\":1}}}''"
    by (simp add: state_json_str_def py_str_int_def)
  from iot_device_act_call_sequence [of quiet_env node_1 "FeatureSwitch node_1" ON iot_device_1_client idle] a b
  show ?thesis by (simp add: idle_def SHADOW_CALLBACK_TIMEOUT_s_def)
qed

subsection \<open>Only the log grows\<close>

lemma appendsI:
  "(\<And>s. \<exists>calls. log (snd (m s)) = log s @ calls \<and> list_all P calls) \<Longrightarrow> appends P m"
  by (simp add: appends_def)

lemma appendsD:
  "appends P m \<Longrightarrow> \<exists>calls. log (snd (m s)) = log s @ calls \<and> list_all P calls"
  by (simp add: appends_def)

lemma appends_ret: "appends P (ret x)"
  by (simp add: appends_def ret_def)

lemma appends_raise: "appends P (raise e)"
  by (simp add: appends_def raise_def)

lemma appends_read_global: "appends P (read_global g)"
  by (simp add: appends_def read_global_def split: option.splits)

lemma appends_assign: "(\<And>s. log (f s) = log s) \<Longrightarrow> appends P (assign f)"
  by (simp add: appends_def assign_def)

lemma appends_print_line: "P (Print text) \<Longrightarrow> appends P (print_line text)"
  by (simp add: appends_def print_line_def)

lemma appends_sdk_call: "P ev \<Longrightarrow> appends P (sdk_call env ev)"
  by (simp add: appends_def sdk_call_def split: option.splits)

lemma appends_bindp:
  assumes "appends P m" and "\<And>x. appends P (k x)"
  shows "appends P (bindp m k)"
proof (rule appendsI)
  fix s
  obtain r s1 where m: "m s = (r, s1)" by (cases "m s")
  from appendsD [OF assms(1), of s] m obtain calls1
    where c1: "log s1 = log s @ calls1" "list_all P calls1" by auto
  show "\<exists>calls. log (snd (bindp m k s)) = log s @ calls \<and> list_all P calls"
  proof (cases r)
    case (Inl e)
    with m c1 show ?thesis by (simp add: bindp_def)
  next
    case (Inr x)
    from appendsD [OF assms(2), of x s1] obtain calls2
      where "log (snd (k x s1)) = log s1 @ calls2" "list_all P calls2" by auto
    with m c1 Inr have "log (snd (bindp m k s)) = log s @ (calls1 @ calls2)"
      "list_all P (calls1 @ calls2)" by (simp_all add: bindp_def)
    then show ?thesis by blast
  qed
qed

lemma appends_seq: "appends P m \<Longrightarrow> appends P k \<Longrightarrow> appends P (seq m k)"
  by (simp add: seq_def appends_bindp)

lemma appends_catch:
  assumes "appends P m" and "\<And>e. appends P (h e)"
  shows "appends P (catch m h)"
proof (rule appendsI)
  fix s
  obtain r s1 where m: "m s = (r, s1)" by (cases "m s")
  from appendsD [OF assms(1), of s] m obtain calls1
    where c1: "log s1 = log s @ calls1" "list_all P calls1" by auto
  show "\<exists>calls. log (snd (catch m h s)) = log s @ calls \<and> list_all P calls"
  proof (cases r)
    case (Inr x)
    with m c1 show ?thesis by (simp add: catch_def)
  next
    case (Inl e)
    from appendsD [OF assms(2), of e s1] obtain calls2
      where "log (snd (h e s1)) = log s1 @ calls2" "list_all P calls2" by auto
    with m c1 Inl have "log (snd (catch m h s)) = log s @ (calls1 @ calls2)"
      "list_all P (calls1 @ calls2)" by (simp_all add: catch_def)
    then show ?thesis by blast
  qed
qed

lemma appends_if: "appends P m \<Longrightarrow> appends P k \<Longrightarrow> appends P (if b then m else k)"
  by simp

lemma appends_weaken: "appends P m \<Longrightarrow> (\<And>ev. P ev \<Longrightarrow> Q ev) \<Longrightarrow> appends Q m"
  unfolding appends_def list_all_iff by blast

lemma appends_keeps:
  "appends P m \<Longrightarrow> list_all P (log s) \<Longrightarrow> list_all P (log (snd (m s)))"
  by (auto dest: appendsD [of P m s])

subsection \<open>Nothing but the log changes\<close>

lemma keeps_globalsD: "keeps_globals m \<Longrightarrow> snd (m s) = s\<lparr>log := log (snd (m s))\<rparr>"
  by (simp add: keeps_globals_def)

lemma keeps_ret: "keeps_globals (ret x)"
  by (simp add: keeps_globals_def ret_def)

lemma keeps_raise: "keeps_globals (raise e)"
  by (simp add: keeps_globals_def raise_def)

lemma keeps_read_global: "keeps_globals (read_global g)"
  by (simp add: keeps_globals_def read_global_def split: option.splits)

lemma keeps_print_line: "keeps_globals (print_line text)"
  by (simp add: keeps_globals_def print_line_def)

lemma keeps_sdk_call: "keeps_globals (sdk_call env ev)"
  by (simp add: keeps_globals_def sdk_call_def split: option.splits)

lemma keeps_bindp:
  assumes "keeps_globals m" and "\<And>x. keeps_globals (k x)"
  shows "keeps_globals (bindp m k)"
  unfolding keeps_globals_def
proof
  fix s
  obtain r s1 where m: "m s = (r, s1)" by (cases "m s")
  from keeps_globalsD [OF assms(1), of s] m have s1: "s1 = s\<lparr>log := log s1\<rparr>" by simp
  show "snd (bindp m k s) = s\<lparr>log := log (snd (bindp m k s))\<rparr>"
  proof (cases r)
    case (Inl e)
    with m s1 show ?thesis by (simp add: bindp_def)
  next
    case (Inr x)
    from keeps_globalsD [OF assms(2), of x s1]
    have "snd (k x s1) = s1\<lparr>log := log (snd (k x s1))\<rparr>" .
    with s1 have "snd (k x s1) = s\<lparr>log := log (snd (k x s1))\<rparr>"
      by (metis state.surjective state.update_convs(9))
    with m Inr show ?thesis by (simp add: bindp_def)
  qed
qed

lemma keeps_seq: "keeps_globals m \<Longrightarrow> keeps_globals k \<Longrightarrow> keeps_globals (seq m k)"
  by (simp add: seq_def keeps_bindp)

subsection \<open>Messages on the act topic\<close>

lemma callback_1_effect:
  "iot_device_1_callback env payload s =
     (case get_client_id_and_switch_status env payload of
        Inl e \<Rightarrow> (Inl e, s)
      | Inr None \<Rightarrow> (Inl UnboundLocalError, s)
      | Inr (Some (client_id, switch_status)) \<Rightarrow>
          (Inr (), if client_id = IOT_DEVICE_1_NAME
                   then s\<lparr>iot_device_1_status := (if switch_status = ''0'' then OFF else ON),
                           iot_device_1_act_flag := True\<rparr>
                   else s))"
  by (simp add: iot_device_1_callback_def split: sum.splits option.splits)

lemma callback_2_effect:
  "iot_device_2_callback env payload s =
     (case get_client_id_and_switch_status env payload of
        Inl e \<Rightarrow> (Inl e, s)
      | Inr None \<Rightarrow> (Inl UnboundLocalError, s)
      | Inr (Some (client_id, switch_status)) \<Rightarrow>
          (Inr (), if client_id = IOT_DEVICE_2_NAME
                   then s\<lparr>iot_device_2_status := (if switch_status = ''0'' then OFF else ON),
                           iot_device_2_act_flag := True\<rparr>
                   else s))"
  by (simp add: iot_device_2_callback_def split: sum.splits option.splits)

lemma device_names_differ: "IOT_DEVICE_1_NAME \<noteq> IOT_DEVICE_2_NAME"
  by (simp add: IOT_DEVICE_1_NAME_def IOT_DEVICE_2_NAME_def)

lemma on_act_message_for_device_1:
  "get_client_id_and_switch_status env payload = Inr (Some (IOT_DEVICE_1_NAME, token)) \<Longrightarrow>
     on_act_message env payload s =
       s\<lparr>iot_device_1_status := (if token = ''0'' then OFF else ON), iot_device_1_act_flag := True\<rparr>"
  by (simp add: on_act_message_def callback_1_effect callback_2_effect device_names_differ)

lemma on_act_message_for_device_2:
  "get_client_id_and_switch_status env payload = Inr (Some (IOT_DEVICE_2_NAME, token)) \<Longrightarrow>
     on_act_message env payload s =
       s\<lparr>iot_device_2_status := (if token = ''0'' then OFF else ON), iot_device_2_act_flag := True\<rparr>"
  using device_names_differ
  by (simp add: on_act_message_def callback_1_effect callback_2_effect)

lemma on_act_message_frame:
  "\<exists>a b c d. on_act_message env payload s =
      s\<lparr>iot_device_1_status := a, iot_device_2_status := b,
        iot_device_1_act_flag := c, iot_device_2_act_flag := d\<rparr>"
proof -
  have id: "s = s\<lparr>iot_device_1_status := iot_device_1_status s,
                  iot_device_2_status := iot_device_2_status s,
                  iot_device_1_act_flag := iot_device_1_act_flag s,
                  iot_device_2_act_flag := iot_device_2_act_flag s\<rparr>" by simp
  obtain r1 where r1: "get_client_id_and_switch_status env payload = r1" by simp
  show ?thesis
  proof (cases r1)
    case (Inl e)
    with r1 have "on_act_message env payload s = s"
      by (simp add: on_act_message_def callback_1_effect callback_2_effect)
    with id show ?thesis by metis
  next
    case (Inr b)
    show ?thesis
    proof (cases b)
      case None
      with r1 Inr have "on_act_message env payload s = s"
        by (simp add: on_act_message_def callback_1_effect callback_2_effect)
      with id show ?thesis by metis
    next
      case (Some p)
      obtain cid tok where p: "p = (cid, tok)" by (cases p)
      consider "cid = IOT_DEVICE_1_NAME" | "cid = IOT_DEVICE_2_NAME"
        | "cid \<noteq> IOT_DEVICE_1_NAME" "cid \<noteq> IOT_DEVICE_2_NAME" by blast
      then show ?thesis
      proof cases
        case 1
        with r1 Inr Some p have "on_act_message env payload s =
            s\<lparr>iot_device_1_status := (if tok = ''0'' then OFF else ON),
              iot_device_2_status := iot_device_2_status s,
              iot_device_1_act_flag := True, iot_device_2_act_flag := iot_device_2_act_flag s\<rparr>"
          by (simp add: on_act_message_for_device_1)
        then show ?thesis by blast
      next
        case 2
        with r1 Inr Some p have "on_act_message env payload s =
            s\<lparr>iot_device_1_status := iot_device_1_status s,
              iot_device_2_status := (if tok = ''0'' then OFF else ON),
              iot_device_1_act_flag := iot_device_1_act_flag s, iot_device_2_act_flag := True\<rparr>"
          by (simp add: on_act_message_for_device_2)
        then show ?thesis by blast
      next
        case 3
        with r1 Inr Some p have "on_act_message env payload s = s"
          by (simp add: on_act_message_def callback_1_effect callback_2_effect)
        with id show ?thesis by metis
      qed
    qed
  qed
qed

lemma on_act_messages_frame:
  "\<exists>a b c d. on_act_messages env payloads s =
      s\<lparr>iot_device_1_status := a, iot_device_2_status := b,
        iot_device_1_act_flag := c, iot_device_2_act_flag := d\<rparr>"
proof (induction payloads arbitrary: s)
  case Nil
  have "s = s\<lparr>iot_device_1_status := iot_device_1_status s,
              iot_device_2_status := iot_device_2_status s,
              iot_device_1_act_flag := iot_device_1_act_flag s,
              iot_device_2_act_flag := iot_device_2_act_flag s\<rparr>" by simp
  then show ?case by (metis on_act_messages.simps(1))
next
  case (Cons p ps)
  obtain a b c d where 1: "on_act_message env p s =
      s\<lparr>iot_device_1_status := a, iot_device_2_status := b,
        iot_device_1_act_flag := c, iot_device_2_act_flag := d\<rparr>"
    using on_act_message_frame by blast
  obtain a' b' c' d' where 2: "on_act_messages env ps (on_act_message env p s) =
      (on_act_message env p s)\<lparr>iot_device_1_status := a', iot_device_2_status := b',
        iot_device_1_act_flag := c', iot_device_2_act_flag := d'\<rparr>"
    using Cons.IH by blast
  have "on_act_messages env (p # ps) s = on_act_messages env ps (on_act_message env p s)"
    by simp
  also note 2
  also have "(on_act_message env p s)\<lparr>iot_device_1_status := a', iot_device_2_status := b',
        iot_device_1_act_flag := c', iot_device_2_act_flag := d'\<rparr> =
      s\<lparr>iot_device_1_status := a', iot_device_2_status := b',
        iot_device_1_act_flag := c', iot_device_2_act_flag := d'\<rparr>"
    by (simp add: 1)
  finally show ?case by blast
qed

lemma on_act_messages_log [simp]: "log (on_act_messages env payloads s) = log s"
  using on_act_messages_frame [of env payloads s] by auto

lemma on_act_messages_nodes [simp]:
  "iot_device_1 (on_act_messages env payloads s) = iot_device_1 s"
  "iot_device_2 (on_act_messages env payloads s) = iot_device_2 s"
  using on_act_messages_frame [of env payloads s] by auto

lemma on_act_messages_update_log:
  "on_act_messages env payloads (s\<lparr>log := l\<rparr>) = (on_act_messages env payloads s)\<lparr>log := l\<rparr>"
proof (induction payloads arbitrary: s)
  case Nil
  show ?case by simp
next
  case (Cons p ps)
  have "on_act_message env p (s\<lparr>log := l\<rparr>) = (on_act_message env p s)\<lparr>log := l\<rparr>"
    by (simp add: on_act_message_def callback_1_effect callback_2_effect
          split: sum.splits option.splits)
  with Cons show ?case by simp
qed

subsection \<open>Waiting for notifications\<close>

lemma appends_on_update: "appends sensing_call (on_update env c topic f sample)"
  by (simp add: on_update_def Let_def appends_sdk_call)

lemma keeps_on_update: "keeps_globals (on_update env c topic f sample)"
  by (simp add: on_update_def Let_def keeps_sdk_call)

lemma appends_notify_listeners: "appends sensing_call (notify_listeners env ls f sample)"
proof (induction ls)
  case Nil
  show ?case by (simp add: appends_ret)
next
  case (Cons l ls)
  obtain c t where "l = (c, t)" by (cases l)
  with Cons show ?case by (simp add: appends_seq appends_on_update)
qed

lemma keeps_notify_listeners: "keeps_globals (notify_listeners env ls f sample)"
proof (induction ls)
  case Nil
  show ?case by (simp add: keeps_ret)
next
  case (Cons l ls)
  obtain c t where "l = (c, t)" by (cases l)
  with Cons show ?case by (simp add: keeps_seq keeps_on_update)
qed

lemma appends_wait: "appends sensing_call (wait_for_notifications env n)"
  unfolding wait_for_notifications_def
proof (rule appends_seq [OF appends_sdk_call])
  show "sensing_call (WaitForNotifications n)" by simp
  show "appends sensing_call
     (\<lambda>s. case notification env (log s) n of
             None \<Rightarrow> ret False s
           | Some sample \<Rightarrow>
               seq (notify_listeners env (listeners_of (FeatureSwitch n) (log s))
                      (FeatureSwitch n) sample) (ret True) s)"
  proof (rule appendsI)
    fix s
    show "\<exists>calls. log (snd (case notification env (log s) n of
             None \<Rightarrow> ret False s
           | Some sample \<Rightarrow>
               seq (notify_listeners env (listeners_of (FeatureSwitch n) (log s))
                      (FeatureSwitch n) sample) (ret True) s)) = log s @ calls \<and>
           list_all sensing_call calls"
    proof (cases "notification env (log s) n")
      case None
      then show ?thesis by (simp add: ret_def)
    next
      case (Some sample)
      have "appends sensing_call
              (seq (notify_listeners env (listeners_of (FeatureSwitch n) (log s))
                      (FeatureSwitch n) sample) (ret True))"
        by (intro appends_seq appends_notify_listeners appends_ret)
      from appendsD [OF this, of s] Some show ?thesis by simp
    qed
  qed
qed

lemma wait_without_notification:
  assumes "sdk_raises env (log s) (WaitForNotifications n) = None"
      and "notification env (log s @ [WaitForNotifications n]) n = None"
  shows "wait_for_notifications env n s = (Inr False, s\<lparr>log := log s @ [WaitForNotifications n]\<rparr>)"
  using assms by (simp add: wait_for_notifications_def seq_def bindp_def sdk_call_def ret_def)

lemma notify_listeners_returns:
  assumes "\<forall>calls ev. sdk_raises env calls ev = None"
  shows "fst (notify_listeners env ls f sample s) = Inr ()"
proof (induction ls arbitrary: s)
  case Nil
  show ?case by (simp add: ret_def)
next
  case (Cons l ls)
  obtain c t where l: "l = (c, t)" by (cases l)
  have "on_update env c t f sample s =
          (Inr (), s\<lparr>log := log s @ [Publish c t (json_dumps env (JObject [(field_name env,
             JString (''('' @ py_str_int (get_timestamp sample) @ '') '' @ get_client_id c
                      @ '' '' @ py_str_int (get_switch_status sample)))])) MQTT_QOS_0]\<rparr>)"
    using assms by (simp add: on_update_def Let_def sdk_call_def)
  with Cons l show ?case by (simp add: seq_def bindp_def)
qed

lemma wait_with_notification:
  assumes "\<forall>calls ev. sdk_raises env calls ev = None"
      and "notification env (log s @ [WaitForNotifications n]) n = Some sample"
  shows "\<exists>calls. wait_for_notifications env n s = (Inr True, s\<lparr>log := log s @ calls\<rparr>) \<and>
                  list_all sensing_call calls"
proof -
  let ?s1 = "s\<lparr>log := log s @ [WaitForNotifications n]\<rparr>"
  let ?m = "notify_listeners env (listeners_of (FeatureSwitch n) (log ?s1)) (FeatureSwitch n) sample"
  obtain r s2 where m: "?m ?s1 = (r, s2)" by (cases "?m ?s1")
  from notify_listeners_returns [OF assms(1), of "listeners_of (FeatureSwitch n) (log ?s1)"
      "FeatureSwitch n" sample ?s1] m have r: "r = Inr ()" by simp
  from appendsD [OF appends_notify_listeners, of env "listeners_of (FeatureSwitch n) (log ?s1)"
      "FeatureSwitch n" sample ?s1] m
  obtain calls where c: "log s2 = log ?s1 @ calls" "list_all sensing_call calls" by auto
  from keeps_globalsD [OF keeps_notify_listeners, of env "listeners_of (FeatureSwitch n) (log ?s1)"
      "FeatureSwitch n" sample ?s1] m
  have "s2 = ?s1\<lparr>log := log s2\<rparr>" by simp
  with c have s2: "s2 = s\<lparr>log := log s @ (WaitForNotifications n # calls)\<rparr>" by simp
  have "wait_for_notifications env n s = (Inr True, s2)"
    using assms m r
    by (simp add: wait_for_notifications_def seq_def bindp_def sdk_call_def ret_def)
  with s2 c show ?thesis by (intro exI [of _ "WaitForNotifications n # calls"]) simp
qed

subsection \<open>One pass of the loop\<close>

lemma iot_device_act_quiet:
  assumes "\<forall>calls ev. sdk_raises env calls ev = None"
  shows "iot_device_act env d f st c s =
           (Inr (), s\<lparr>log := log s @ [DisableNotifications d f, WriteSwitchStatus f (status_value st),
                             EnableNotifications d f,
                             UpdateShadowState c (state_json_str st) SHADOW_CALLBACK_TIMEOUT_s]\<rparr>)"
  using assms by (simp add: iot_device_act_def seq_def bindp_def sdk_call_def)

lemma handle_actuation_quiet:
  assumes "\<forall>calls ev. sdk_raises env calls ev = None"
      and "iot_device_1 s = Some n1" and "iot_device_2 s = Some n2"
  shows "handle_actuation env s =
     (Inr (),
      if iot_device_1_act_flag s then
        s\<lparr>iot_device_1_act_flag := False,
          log := log s @ [DisableNotifications n1 (FeatureSwitch n1),
                          WriteSwitchStatus (FeatureSwitch n1) (status_value (iot_device_1_status s)),
                          EnableNotifications n1 (FeatureSwitch n1),
                          UpdateShadowState iot_device_1_client (state_json_str (iot_device_1_status s))
                            SHADOW_CALLBACK_TIMEOUT_s]\<rparr>
      else if iot_device_2_act_flag s then
        s\<lparr>iot_device_2_act_flag := False,
          log := log s @ [DisableNotifications n2 (FeatureSwitch n2),
                          WriteSwitchStatus (FeatureSwitch n2) (status_value (iot_device_2_status s)),
                          EnableNotifications n2 (FeatureSwitch n2),
                          UpdateShadowState iot_device_2_client (state_json_str (iot_device_2_status s))
                            SHADOW_CALLBACK_TIMEOUT_s]\<rparr>
      else s)"
  using assms(2,3)
  by (simp add: handle_actuation_def iot_device_act_quiet [OF assms(1)] seq_def bindp_def
        read_global_def assign_def ret_def)

text \<open>
  C3, as the code has it. In a pass in which no SDK call raises: when neither wait
  handles a notification, at most one pending act is applied, the first device's
  if it is pending and the second device's only when the first has none; when a
  wait handles a notification, the pass ends there (\<^verbatim>\<open>continue\<close>): only calls of the
  sensing path are made, no act is applied and both act flags stay as they are.
\<close>

theorem loop_iteration_applies_at_most_one_act:
  assumes "\<forall>calls ev. sdk_raises env calls ev = None"
      and "iot_device_1 s = Some n1" and "iot_device_2 s = Some n2"
  shows "(notification env (log s @ [WaitForNotifications n1]) n1 = None \<and>
          notification env (log s @ [WaitForNotifications n1, WaitForNotifications n2]) n2 = None \<longrightarrow>
          loop_iteration env s =
            (Inr (),
             if iot_device_1_act_flag s then
               s\<lparr>iot_device_1_act_flag := False,
                 log := log s @ [WaitForNotifications n1, WaitForNotifications n2,
                          DisableNotifications n1 (FeatureSwitch n1),
                          WriteSwitchStatus (FeatureSwitch n1) (status_value (iot_device_1_status s)),
                          EnableNotifications n1 (FeatureSwitch n1),
                          UpdateShadowState iot_device_1_client (state_json_str (iot_device_1_status s))
                            SHADOW_CALLBACK_TIMEOUT_s]\<rparr>
             else if iot_device_2_act_flag s then
               s\<lparr>iot_device_2_act_flag := False,
                 log := log s @ [WaitForNotifications n1, WaitForNotifications n2,
                          DisableNotifications n2 (FeatureSwitch n2),
                          WriteSwitchStatus (FeatureSwitch n2) (status_value (iot_device_2_status s)),
                          EnableNotifications n2 (FeatureSwitch n2),
                          UpdateShadowState iot_device_2_client (state_json_str (iot_device_2_status s))
                            SHADOW_CALLBACK_TIMEOUT_s]\<rparr>
             else s\<lparr>log := log s @ [WaitForNotifications n1, WaitForNotifications n2]\<rparr>)) \<and>
         (\<not> (notification env (log s @ [WaitForNotifications n1]) n1 = None \<and>
             notification env (log s @ [WaitForNotifications n1, WaitForNotifications n2]) n2 = None) \<longrightarrow>
          (\<exists>calls. loop_iteration env s = (Inr (), s\<lparr>log := log s @ calls\<rparr>) \<and>
                   list_all sensing_call calls))"
proof (intro conjI impI)
  assume quiet: "notification env (log s @ [WaitForNotifications n1]) n1 = None \<and>
     notification env (log s @ [WaitForNotifications n1, WaitForNotifications n2]) n2 = None"
  let ?s1 = "s\<lparr>log := log s @ [WaitForNotifications n1]\<rparr>"
  let ?s2 = "s\<lparr>log := log s @ [WaitForNotifications n1, WaitForNotifications n2]\<rparr>"
  have w1: "wait_for_notifications env n1 s = (Inr False, ?s1)"
    using assms(1) quiet by (simp add: wait_without_notification)
  have w2: "wait_for_notifications env n2 ?s1 = (Inr False, ?s2)"
    using assms(1) quiet wait_without_notification [of env ?s1 n2] by simp
  have "loop_iteration env s = handle_actuation env ?s2"
    using assms(2,3) w1 w2 by (simp add: loop_iteration_def bindp_def read_global_def)
  also have "\<dots> = (Inr (),
             if iot_device_1_act_flag s then
               s\<lparr>iot_device_1_act_flag := False,
                 log := log s @ [WaitForNotifications n1, WaitForNotifications n2,
                          DisableNotifications n1 (FeatureSwitch n1),
                          WriteSwitchStatus (FeatureSwitch n1) (status_value (iot_device_1_status s)),
                          EnableNotifications n1 (FeatureSwitch n1),
                          UpdateShadowState iot_device_1_client (state_json_str (iot_device_1_status s))
                            SHADOW_CALLBACK_TIMEOUT_s]\<rparr>
             else if iot_device_2_act_flag s then
               s\<lparr>iot_device_2_act_flag := False,
                 log := log s @ [WaitForNotifications n1, WaitForNotifications n2,
                          DisableNotifications n2 (FeatureSwitch n2),
                          WriteSwitchStatus (FeatureSwitch n2) (status_value (iot_device_2_status s)),
                          EnableNotifications n2 (FeatureSwitch n2),
                          UpdateShadowState iot_device_2_client (state_json_str (iot_device_2_status s))
                            SHADOW_CALLBACK_TIMEOUT_s]\<rparr>
             else s\<lparr>log := log s @ [WaitForNotifications n1, WaitForNotifications n2]\<rparr>)"
    using assms(2,3) handle_actuation_quiet [OF assms(1), of ?s2 n1 n2] by simp
  finally show "loop_iteration env s = (Inr (),
             if iot_device_1_act_flag s then
               s\<lparr>iot_device_1_act_flag := False,
                 log := log s @ [WaitForNotifications n1, WaitForNotifications n2,
                          DisableNotifications n1 (FeatureSwitch n1),
                          WriteSwitchStatus (FeatureSwitch n1) (status_value (iot_device_1_status s)),
                          EnableNotifications n1 (FeatureSwitch n1),
                          UpdateShadowState iot_device_1_client (state_json_str (iot_device_1_status s))
                            SHADOW_CALLBACK_TIMEOUT_s]\<rparr>
             else if iot_device_2_act_flag s then
               s\<lparr>iot_device_2_act_flag := False,
                 log := log s @ [WaitForNotifications n1, WaitForNotifications n2,
                          DisableNotifications n2 (FeatureSwitch n2),
                          WriteSwitchStatus (FeatureSwitch n2) (status_value (iot_device_2_status s)),
                          EnableNotifications n2 (FeatureSwitch n2),
                          UpdateShadowState iot_device_2_client (state_json_str (iot_device_2_status s))
                            SHADOW_CALLBACK_TIMEOUT_s]\<rparr>
             else s\<lparr>log := log s @ [WaitForNotifications n1, WaitForNotifications n2]\<rparr>)" .
next
  assume notified: "\<not> (notification env (log s @ [WaitForNotifications n1]) n1 = None \<and>
     notification env (log s @ [WaitForNotifications n1, WaitForNotifications n2]) n2 = None)"
  show "\<exists>calls. loop_iteration env s = (Inr (), s\<lparr>log := log s @ calls\<rparr>) \<and>
                 list_all sensing_call calls"
  proof (cases "notification env (log s @ [WaitForNotifications n1]) n1")
    case (Some sample)
    from wait_with_notification [OF assms(1) Some] obtain calls
      where c: "wait_for_notifications env n1 s = (Inr True, s\<lparr>log := log s @ calls\<rparr>)"
        "list_all sensing_call calls" by blast
    have "loop_iteration env s = (Inr (), s\<lparr>log := log s @ calls\<rparr>)"
      using assms(2) c(1) by (simp add: loop_iteration_def bindp_def read_global_def ret_def)
    with c(2) show ?thesis by blast
  next
    case None
    let ?s1 = "s\<lparr>log := log s @ [WaitForNotifications n1]\<rparr>"
    have w1: "wait_for_notifications env n1 s = (Inr False, ?s1)"
      using assms(1) None by (simp add: wait_without_notification)
    from None notified obtain sample
      where "notification env (log ?s1 @ [WaitForNotifications n2]) n2 = Some sample" by auto
    from wait_with_notification [OF assms(1) this] obtain calls
      where c: "wait_for_notifications env n2 ?s1 = (Inr True, ?s1\<lparr>log := log ?s1 @ calls\<rparr>)"
        "list_all sensing_call calls" by blast
    have "loop_iteration env s = (Inr (), s\<lparr>log := log s @ (WaitForNotifications n1 # calls)\<rparr>)"
      using assms(2,3) w1 c(1) by (simp add: loop_iteration_def bindp_def read_global_def ret_def)
    moreover have "list_all sensing_call (WaitForNotifications n1 # calls)"
      using c(2) by simp
    ultimately show ?thesis by blast
  qed
qed

lemma quiet_never_raises: "sdk_raises quiet_env calls ev = None"
  by (simp add: quiet_env_def)

lemma state_json_str_values:
  "state_json_str OFF = ''{\"state\":{\"desired\":{\"switch_status\":0}}}''"
  "state_json_str ON = ''{\"state\":{\"desired\":{\"switch_status\":1}}}''"
  by (simp_all add: state_json_str_def py_str_int_def)

theorem loop_iteration_applies_at_most_one_act_witness:
  "(\<forall>calls ev. sdk_raises quiet_env calls ev = None) \<and>
   iot_device_1 (idle\<lparr>iot_device_2_status := ON, iot_device_2_act_flag := True\<rparr>) = Some node_1 \<and>
   iot_device_2 (idle\<lparr>iot_device_2_status := ON, iot_device_2_act_flag := True\<rparr>) = Some node_2 \<and>
   notification quiet_env [WaitForNotifications node_1] node_1 = None \<and>
   notification quiet_env [WaitForNotifications node_1, WaitForNotifications node_2] node_2 = None \<and>
   loop_iteration quiet_env (idle\<lparr>iot_device_2_status := ON, iot_device_2_act_flag := True\<rparr>) =
     (Inr (), idle\<lparr>iot_device_2_status := ON, iot_device_2_act_flag := False,
           log := [WaitForNotifications node_1, WaitForNotifications node_2,
                   DisableNotifications node_2 (FeatureSwitch node_2),
                   WriteSwitchStatus (FeatureSwitch node_2) 1,
                   EnableNotifications node_2 (FeatureSwitch node_2),
                   UpdateShadowState iot_device_2_client
                     ''{\"state\":{\"desired\":{\"switch_status\":1}}}'' 5]\<rparr>)"
proof -
  let ?s = "idle\<lparr>iot_device_2_status := ON, iot_device_2_act_flag := True\<rparr>"
  have a: "\<forall>calls ev. sdk_raises quiet_env calls ev = None"
    by (simp add: quiet_never_raises)
  have b: "iot_device_1 ?s = Some node_1" and c: "iot_device_2 ?s = Some node_2"
    by (simp_all add: idle_def)
  have d: "notification quiet_env calls n = None" for calls n
    by (simp add: quiet_env_def)
  from loop_iteration_applies_at_most_one_act [OF a b c] a b c d
  show ?thesis
    by (simp add: idle_def state_json_str_values SHADOW_CALLBACK_TIMEOUT_s_def)
qed

text \<open>
  C3 as stated fails. With an act pending for both devices, one pass applies the
  first device's act and leaves the second device's pending; with a notification
  handled in the pass, the pending act of the first device is not applied either.
\<close>

theorem pending_acts_are_deferred:
  "loop_iteration quiet_env
     (idle\<lparr>iot_device_1_status := ON, iot_device_2_status := ON,
           iot_device_1_act_flag := True, iot_device_2_act_flag := True\<rparr>) =
     (Inr (), idle\<lparr>iot_device_1_status := ON, iot_device_2_status := ON,
           iot_device_1_act_flag := False, iot_device_2_act_flag := True,
           log := [WaitForNotifications node_1, WaitForNotifications node_2,
                   DisableNotifications node_1 (FeatureSwitch node_1),
                   WriteSwitchStatus (FeatureSwitch node_1) 1,
                   EnableNotifications node_1 (FeatureSwitch node_1),
                   UpdateShadowState iot_device_1_client
                     ''{\"state\":{\"desired\":{\"switch_status\":1}}}'' 5]\<rparr>) \<and>
   loop_iteration noisy_env
     (idle\<lparr>iot_device_1_status := ON, iot_device_1_act_flag := True,
           log := [FeatureAddListener (FeatureSwitch node_1) iot_device_1_client
                     ''iot_device/switch_sense'']\<rparr>) =
     (Inr (), idle\<lparr>iot_device_1_status := ON, iot_device_1_act_flag := True,
           log := [FeatureAddListener (FeatureSwitch node_1) iot_device_1_client
                     ''iot_device/switch_sense'',
                   WaitForNotifications node_1,
                   Publish iot_device_1_client ''iot_device/switch_sense''
                     ''{\"switch_status_value\": \"(1000) IoT_Device_1 1\"}'' 0]\<rparr>)"
proof
  show "loop_iteration quiet_env
     (idle\<lparr>iot_device_1_status := ON, iot_device_2_status := ON,
           iot_device_1_act_flag := True, iot_device_2_act_flag := True\<rparr>) =
     (Inr (), idle\<lparr>iot_device_1_status := ON, iot_device_2_status := ON,
           iot_device_1_act_flag := False, iot_device_2_act_flag := True,
           log := [WaitForNotifications node_1, WaitForNotifications node_2,
                   DisableNotifications node_1 (FeatureSwitch node_1),
                   WriteSwitchStatus (FeatureSwitch node_1) 1,
                   EnableNotifications node_1 (FeatureSwitch node_1),
                   UpdateShadowState iot_device_1_client
                     ''{\"state\":{\"desired\":{\"switch_status\":1}}}'' 5]\<rparr>)"
    by (simp add: loop_iteration_def handle_actuation_def iot_device_act_def
          wait_for_notifications_def seq_def bindp_def sdk_call_def read_global_def ret_def
          assign_def idle_def quiet_env_def state_json_str_values SHADOW_CALLBACK_TIMEOUT_s_def)
  have p: "py_str_int 1000 = ''1000''" "py_str_int 1 = ''1''"
    by (simp_all add: py_str_int_def)
  show "loop_iteration noisy_env
     (idle\<lparr>iot_device_1_status := ON, iot_device_1_act_flag := True,
           log := [FeatureAddListener (FeatureSwitch node_1) iot_device_1_client
                     ''iot_device/switch_sense'']\<rparr>) =
     (Inr (), idle\<lparr>iot_device_1_status := ON, iot_device_1_act_flag := True,
           log := [FeatureAddListener (FeatureSwitch node_1) iot_device_1_client
                     ''iot_device/switch_sense'',
                   WaitForNotifications node_1,
                   Publish iot_device_1_client ''iot_device/switch_sense''
                     ''{\"switch_status_value\": \"(1000) IoT_Device_1 1\"}'' 0]\<rparr>)"
    by (simp add: loop_iteration_def wait_for_notifications_def on_update_def
          seq_def bindp_def sdk_call_def read_global_def ret_def
          idle_def noisy_env_def quiet_env_def p iot_device_1_client_def IOT_DEVICE_1_NAME_def
          MQTT_QOS_0_def)
qed

subsection \<open>Duplicate and overwritten acts\<close>

text \<open>
  C6, as the code has it. Two messages for the same device leave what the later one
  alone leaves: one status and one flag per device, so the later act overwrites the
  earlier and a duplicate changes nothing. One pass of the actuation then applies the
  act once and clears the flag, for the first device always and for the second when
  the first device has no act pending (no SDK call raising).
\<close>

theorem duplicate_act_is_applied_once:
  assumes "\<forall>calls ev. sdk_raises env calls ev = None"
      and "iot_device_1 s = Some n1" and "iot_device_2 s = Some n2"
      and "get_client_id_and_switch_status env earlier = Inr (Some (client_id, token'))"
      and "get_client_id_and_switch_status env payload = Inr (Some (client_id, token))"
  shows "(client_id = IOT_DEVICE_1_NAME \<longrightarrow>
            on_act_message env payload (on_act_message env earlier s) = on_act_message env payload s \<and>
            handle_actuation env (on_act_message env payload s) =
              (Inr (), s\<lparr>iot_device_1_status := (if token = ''0'' then OFF else ON),
                         iot_device_1_act_flag := False,
                         log := log s @
                           [DisableNotifications n1 (FeatureSwitch n1),
                            WriteSwitchStatus (FeatureSwitch n1) (if token = ''0'' then 0 else 1),
                            EnableNotifications n1 (FeatureSwitch n1),
                            UpdateShadowState iot_device_1_client
                              (state_json_str (if token = ''0'' then OFF else ON))
                              SHADOW_CALLBACK_TIMEOUT_s]\<rparr>)) \<and>
         (client_id = IOT_DEVICE_2_NAME \<and> \<not> iot_device_1_act_flag s \<longrightarrow>
            on_act_message env payload (on_act_message env earlier s) = on_act_message env payload s \<and>
            handle_actuation env (on_act_message env payload s) =
              (Inr (), s\<lparr>iot_device_2_status := (if token = ''0'' then OFF else ON),
                         iot_device_2_act_flag := False,
                         log := log s @
                           [DisableNotifications n2 (FeatureSwitch n2),
                            WriteSwitchStatus (FeatureSwitch n2) (if token = ''0'' then 0 else 1),
                            EnableNotifications n2 (FeatureSwitch n2),
                            UpdateShadowState iot_device_2_client
                              (state_json_str (if token = ''0'' then OFF else ON))
                              SHADOW_CALLBACK_TIMEOUT_s]\<rparr>))"
proof (intro conjI impI)
  assume c: "client_id = IOT_DEVICE_1_NAME"
  from c assms(4,5) show "on_act_message env payload (on_act_message env earlier s) =
      on_act_message env payload s"
    by (simp add: on_act_message_for_device_1)
  let ?s = "on_act_message env payload s"
  from c assms(5) have s: "?s = s\<lparr>iot_device_1_status := (if token = ''0'' then OFF else ON),
      iot_device_1_act_flag := True\<rparr>"
    by (simp add: on_act_message_for_device_1)
  from s assms(2,3) have "iot_device_1 ?s = Some n1" "iot_device_2 ?s = Some n2" by simp_all
  from handle_actuation_quiet [OF assms(1) this] s
  show "handle_actuation env ?s =
      (Inr (), s\<lparr>iot_device_1_status := (if token = ''0'' then OFF else ON),
                 iot_device_1_act_flag := False,
                 log := log s @
                   [DisableNotifications n1 (FeatureSwitch n1),
                    WriteSwitchStatus (FeatureSwitch n1) (if token = ''0'' then 0 else 1),
                    EnableNotifications n1 (FeatureSwitch n1),
                    UpdateShadowState iot_device_1_client
                      (state_json_str (if token = ''0'' then OFF else ON))
                      SHADOW_CALLBACK_TIMEOUT_s]\<rparr>)"
    by simp
next
  assume c: "client_id = IOT_DEVICE_2_NAME \<and> \<not> iot_device_1_act_flag s"
  from c assms(4,5) show "on_act_message env payload (on_act_message env earlier s) =
      on_act_message env payload s"
    by (simp add: on_act_message_for_device_2)
  let ?s = "on_act_message env payload s"
  from c assms(5) have s: "?s = s\<lparr>iot_device_2_status := (if token = ''0'' then OFF else ON),
      iot_device_2_act_flag := True\<rparr>"
    by (simp add: on_act_message_for_device_2)
  from s assms(2,3) have "iot_device_1 ?s = Some n1" "iot_device_2 ?s = Some n2" by simp_all
  from handle_actuation_quiet [OF assms(1) this] s c
  show "handle_actuation env ?s =
      (Inr (), s\<lparr>iot_device_2_status := (if token = ''0'' then OFF else ON),
                 iot_device_2_act_flag := False,
                 log := log s @
                   [DisableNotifications n2 (FeatureSwitch n2),
                    WriteSwitchStatus (FeatureSwitch n2) (if token = ''0'' then 0 else 1),
                    EnableNotifications n2 (FeatureSwitch n2),
                    UpdateShadowState iot_device_2_client
                      (state_json_str (if token = ''0'' then OFF else ON))
                      SHADOW_CALLBACK_TIMEOUT_s]\<rparr>)"
    by simp
qed

lemma example_message_for_device_2:
  "get_client_id_and_switch_status quiet_env ''{\"switch_status_value\":\"(7) IoT_Device_2 ON\"}'' =
     Inr (Some (IOT_DEVICE_2_NAME, ''ON''))"
  by (simp add: get_client_id_and_switch_status_def quiet_env_def loads_flat_example
        IOT_DEVICE_2_NAME_def)

lemma example_message_for_device_1:
  "get_client_id_and_switch_status quiet_env ''{\"switch_status_value\":\"(5) IoT_Device_1 0\"}'' =
     Inr (Some (IOT_DEVICE_1_NAME, ''0''))"
  by (simp add: get_client_id_and_switch_status_def quiet_env_def loads_flat_def symbol_def
        quoted_def skip_ws_def IOT_DEVICE_1_NAME_def)

theorem duplicate_act_is_applied_once_witness:
  "(\<forall>calls ev. sdk_raises quiet_env calls ev = None) \<and>
   iot_device_1 idle = Some node_1 \<and> iot_device_2 idle = Some node_2 \<and>
   get_client_id_and_switch_status quiet_env ''{\"switch_status_value\":\"(7) IoT_Device_2 ON\"}'' =
     Inr (Some (IOT_DEVICE_2_NAME, ''ON'')) \<and>
   \<not> iot_device_1_act_flag idle \<and>
   on_act_message quiet_env ''{\"switch_status_value\":\"(7) IoT_Device_2 ON\"}''
     (on_act_message quiet_env ''{\"switch_status_value\":\"(7) IoT_Device_2 ON\"}'' idle) =
     on_act_message quiet_env ''{\"switch_status_value\":\"(7) IoT_Device_2 ON\"}'' idle \<and>
   handle_actuation quiet_env
     (on_act_message quiet_env ''{\"switch_status_value\":\"(7) IoT_Device_2 ON\"}'' idle) =
     (Inr (), idle\<lparr>iot_device_2_status := ON, iot_device_2_act_flag := False,
           log := [DisableNotifications node_2 (FeatureSwitch node_2),
                   WriteSwitchStatus (FeatureSwitch node_2) 1,
                   EnableNotifications node_2 (FeatureSwitch node_2),
                   UpdateShadowState iot_device_2_client
                     ''{\"state\":{\"desired\":{\"switch_status\":1}}}'' 5]\<rparr>)"
proof -
  have a: "\<forall>calls ev. sdk_raises quiet_env calls ev = None"
    by (simp add: quiet_never_raises)
  have b: "iot_device_1 idle = Some node_1" and c: "iot_device_2 idle = Some node_2"
    and d: "\<not> iot_device_1_act_flag idle" and l: "log idle = []"
    by (simp_all add: idle_def)
  note m = example_message_for_device_2
  from duplicate_act_is_applied_once [OF a b c m m] a b c d l m
  show ?thesis
    by (simp add: state_json_str_values SHADOW_CALLBACK_TIMEOUT_s_def)
qed

text \<open>
  C6 as stated fails for the second device. An act for the first device is pending;
  the same act for the second device arrives twice; one pass of the actuation applies
  the first device's act and nothing to the second device, whose act stays pending.
\<close>

theorem duplicate_act_for_device_2_is_not_applied:
  "handle_actuation quiet_env
     (on_act_messages quiet_env
        [''{\"switch_status_value\":\"(5) IoT_Device_1 0\"}'',
         ''{\"switch_status_value\":\"(7) IoT_Device_2 ON\"}'',
         ''{\"switch_status_value\":\"(7) IoT_Device_2 ON\"}''] idle) =
     (Inr (), idle\<lparr>iot_device_2_status := ON,
           iot_device_1_act_flag := False, iot_device_2_act_flag := True,
           log := [DisableNotifications node_1 (FeatureSwitch node_1),
                   WriteSwitchStatus (FeatureSwitch node_1) 0,
                   EnableNotifications node_1 (FeatureSwitch node_1),
                   UpdateShadowState iot_device_1_client
                     ''{\"state\":{\"desired\":{\"switch_status\":0}}}'' 5]\<rparr>)"
proof -
  have m: "on_act_messages quiet_env
        [''{\"switch_status_value\":\"(5) IoT_Device_1 0\"}'',
         ''{\"switch_status_value\":\"(7) IoT_Device_2 ON\"}'',
         ''{\"switch_status_value\":\"(7) IoT_Device_2 ON\"}''] idle =
      idle\<lparr>iot_device_2_status := ON, iot_device_1_act_flag := True, iot_device_2_act_flag := True\<rparr>"
    by (simp add: on_act_message_for_device_1 [OF example_message_for_device_1]
          on_act_message_for_device_2 [OF example_message_for_device_2] idle_def)
  have a: "\<forall>calls ev. sdk_raises quiet_env calls ev = None"
    by (simp add: quiet_never_raises)
  show ?thesis
    unfolding m
    using handle_actuation_quiet [OF a, of
        "idle\<lparr>iot_device_2_status := ON, iot_device_1_act_flag := True, iot_device_2_act_flag := True\<rparr>"
        node_1 node_2]
    by (simp add: idle_def state_json_str_values SHADOW_CALLBACK_TIMEOUT_s_def)
qed

subsection \<open>A write that fails\<close>

lemma iot_device_act_write_raises:
  assumes "sdk_raises env (log s) (DisableNotifications d f) = None"
      and "sdk_raises env (log s @ [DisableNotifications d f]) (WriteSwitchStatus f (status_value st)) = Some e"
  shows "iot_device_act env d f st c s =
           (Inl e, s\<lparr>log := log s @ [DisableNotifications d f, WriteSwitchStatus f (status_value st)]\<rparr>)"
  using assms by (simp add: iot_device_act_def seq_def bindp_def sdk_call_def)

lemma handle_actuation_write_raises:
  assumes "iot_device_1 s = Some n1" and "iot_device_2 s = Some n2"
      and "iot_device_1_act_flag s \<or> iot_device_2_act_flag s"
      and "d = (if iot_device_1_act_flag s then n1 else n2)"
      and "st = (if iot_device_1_act_flag s then iot_device_1_status s else iot_device_2_status s)"
      and "sdk_raises env (log s) (DisableNotifications d (FeatureSwitch d)) = None"
      and "sdk_raises env (log s @ [DisableNotifications d (FeatureSwitch d)])
             (WriteSwitchStatus (FeatureSwitch d) (status_value st)) = Some e"
  shows "handle_actuation env s =
           (Inl e, s\<lparr>log := log s @ [DisableNotifications d (FeatureSwitch d),
                                      WriteSwitchStatus (FeatureSwitch d) (status_value st)]\<rparr>)"
proof (cases "iot_device_1_act_flag s")
  case True
  with assms(4,5) have d: "d = n1" "st = iot_device_1_status s" by simp_all
  from iot_device_act_write_raises [OF assms(6,7)] d True assms(1)
  show ?thesis
    by (simp add: handle_actuation_def seq_def bindp_def read_global_def)
next
  case False
  with assms(3,4,5) have d: "d = n2" "st = iot_device_2_status s" "iot_device_2_act_flag s"
    by simp_all
  from iot_device_act_write_raises [OF assms(6,7)] d False assms(2)
  show ?thesis
    by (simp add: handle_actuation_def seq_def bindp_def read_global_def)
qed

text \<open>
  C7. A pass in which no notification is handled, an act is pending and the write
  of \<^verbatim>\<open>iot_device_act\<close> raises \<open>e\<close>: the exception leaves the loop at once, however many
  passes would follow, so the write is attempted once and never again; the status
  globals and the act flags are as the callbacks left them and no shadow update is
  made; the handlers of \<^verbatim>\<open>main\<close> receive \<open>e\<close>, and print the message of an
  \<open>InvalidOperationException\<close> or a \<open>BTLEException\<close>.
\<close>

theorem failed_write_is_reported_and_not_retried:
  assumes "iot_device_1 s = Some n1" and "iot_device_2 s = Some n2"
      and "s1 = on_act_messages env payloads s"
      and "iot_device_1_act_flag s1 \<or> iot_device_2_act_flag s1"
      and "d = (if iot_device_1_act_flag s1 then n1 else n2)"
      and "st = (if iot_device_1_act_flag s1 then iot_device_1_status s1 else iot_device_2_status s1)"
      and "sdk_raises env (log s) (WaitForNotifications n1) = None"
      and "notification env (log s @ [WaitForNotifications n1]) n1 = None"
      and "sdk_raises env (log s @ [WaitForNotifications n1]) (WaitForNotifications n2) = None"
      and "notification env (log s @ [WaitForNotifications n1, WaitForNotifications n2]) n2 = None"
      and "sdk_raises env (log s @ [WaitForNotifications n1, WaitForNotifications n2])
             (DisableNotifications d (FeatureSwitch d)) = None"
      and "sdk_raises env (log s @ [WaitForNotifications n1, WaitForNotifications n2,
                                      DisableNotifications d (FeatureSwitch d)])
             (WriteSwitchStatus (FeatureSwitch d) (status_value st)) = Some e"
      and "s2 = s1\<lparr>log := log s @ [WaitForNotifications n1, WaitForNotifications n2,
                                     DisableNotifications d (FeatureSwitch d),
                                     WriteSwitchStatus (FeatureSwitch d) (status_value st)]\<rparr>"
  shows "main_loop env (payloads # rounds) s = (Inl e, s2) \<and>
         guarded_loop env (payloads # rounds) s = ended (main_handlers e s2) \<and>
         (\<forall>msg. e = InvalidOperationException msg \<longrightarrow>
            guarded_loop env (payloads # rounds) s = (Returned, s2\<lparr>log := log s2 @ [Print msg]\<rparr>)) \<and>
         (\<forall>msg. e = BTLEException msg \<longrightarrow>
            guarded_loop env (payloads # rounds) s =
              (Raised (SystemExit 0),
               s2\<lparr>log := log s2 @ [Print msg, Print (''Exiting...'' @ NL)]\<rparr>))"
proof -
  let ?w1 = "s1\<lparr>log := log s @ [WaitForNotifications n1]\<rparr>"
  let ?w2 = "s1\<lparr>log := log s @ [WaitForNotifications n1, WaitForNotifications n2]\<rparr>"
  have l: "log s1 = log s" and n: "iot_device_1 s1 = Some n1" "iot_device_2 s1 = Some n2"
    using assms(1,2,3) by simp_all
  have w1: "wait_for_notifications env n1 s1 = (Inr False, ?w1)"
    using wait_without_notification [of env s1 n1] assms(7,8) l by simp
  have w2: "wait_for_notifications env n2 ?w1 = (Inr False, ?w2)"
    using wait_without_notification [of env ?w1 n2] assms(9,10) by simp
  have h: "handle_actuation env ?w2 = (Inl e, s2)"
  proof (rule trans [OF handle_actuation_write_raises [of ?w2 n1 n2 d st env e]])
    show "iot_device_1 ?w2 = Some n1" "iot_device_2 ?w2 = Some n2"
      using n by simp_all
    show "iot_device_1_act_flag ?w2 \<or> iot_device_2_act_flag ?w2"
      using assms(4) by simp
    show "d = (if iot_device_1_act_flag ?w2 then n1 else n2)"
      using assms(5) by simp
    show "st = (if iot_device_1_act_flag ?w2 then iot_device_1_status ?w2
                else iot_device_2_status ?w2)"
      using assms(6) by simp
    show "sdk_raises env (log ?w2) (DisableNotifications d (FeatureSwitch d)) = None"
      using assms(11) by simp
    show "sdk_raises env (log ?w2 @ [DisableNotifications d (FeatureSwitch d)])
             (WriteSwitchStatus (FeatureSwitch d) (status_value st)) = Some e"
      using assms(12) by simp
    show "(Inl e, ?w2\<lparr>log := log ?w2 @ [DisableNotifications d (FeatureSwitch d),
             WriteSwitchStatus (FeatureSwitch d) (status_value st)]\<rparr>) = (Inl e, s2)"
      unfolding assms(13) by simp
  qed
  have it: "loop_iteration env s1 = (Inl e, s2)"
    using n w1 w2 h by (simp add: loop_iteration_def bindp_def read_global_def)
  have loop: "main_loop env (payloads # rounds) s = (Inl e, s2)"
    using it assms(3) by simp
  then have g: "guarded_loop env (payloads # rounds) s = ended (main_handlers e s2)"
    by (simp add: guarded_loop_def)
  show ?thesis
    using loop g by (auto simp: print_line_def seq_def bindp_def raise_def)
qed

theorem failed_write_is_reported_and_not_retried_witness:
  "iot_device_1 idle = Some node_1 \<and> iot_device_2 idle = Some node_2 \<and>
   on_act_messages failing_env [''{\"switch_status_value\":\"(1000) IoT_Device_1 1\"}''] idle =
     idle\<lparr>iot_device_1_status := ON, iot_device_1_act_flag := True\<rparr> \<and>
   sdk_raises failing_env [WaitForNotifications node_1, WaitForNotifications node_2]
     (DisableNotifications node_1 (FeatureSwitch node_1)) = None \<and>
   sdk_raises failing_env [WaitForNotifications node_1, WaitForNotifications node_2,
       DisableNotifications node_1 (FeatureSwitch node_1)]
     (WriteSwitchStatus (FeatureSwitch node_1) 1) = Some (BTLEException ''Failed to write'') \<and>
   guarded_loop failing_env [[''{\"switch_status_value\":\"(1000) IoT_Device_1 1\"}''], [], []] idle =
     (Raised (SystemExit 0),
      idle\<lparr>iot_device_1_status := ON, iot_device_1_act_flag := True,
           log := [WaitForNotifications node_1, WaitForNotifications node_2,
                   DisableNotifications node_1 (FeatureSwitch node_1),
                   WriteSwitchStatus (FeatureSwitch node_1) 1,
                   Print ''Failed to write'', Print (''Exiting...'' @ NL)]\<rparr>)"
proof -
  let ?p = "''{\"switch_status_value\":\"(1000) IoT_Device_1 1\"}''"
  let ?s1 = "idle\<lparr>iot_device_1_status := ON, iot_device_1_act_flag := True\<rparr>"
  have a: "iot_device_1 idle = Some node_1" and b: "iot_device_2 idle = Some node_2"
    and l: "log idle = []"
    by (simp_all add: idle_def)
  have p: "get_client_id_and_switch_status failing_env ?p = Inr (Some (IOT_DEVICE_1_NAME, ''1''))"
    by (simp add: get_client_id_and_switch_status_def failing_env_def quiet_env_def loads_flat_def
          symbol_def quoted_def skip_ws_def IOT_DEVICE_1_NAME_def)
  have c: "?s1 = on_act_messages failing_env [?p] idle"
    by (simp add: on_act_message_for_device_1 [OF p])
  have d: "iot_device_1_act_flag ?s1 \<or> iot_device_2_act_flag ?s1" by simp
  have e: "node_1 = (if iot_device_1_act_flag ?s1 then node_1 else node_2)" by simp
  have f: "ON = (if iot_device_1_act_flag ?s1 then iot_device_1_status ?s1 else iot_device_2_status ?s1)"
    by simp
  have w1: "sdk_raises failing_env (log idle) (WaitForNotifications node_1) = None"
    and w2: "sdk_raises failing_env (log idle @ [WaitForNotifications node_1])
          (WaitForNotifications node_2) = None"
    and n1: "notification failing_env (log idle @ [WaitForNotifications node_1]) node_1 = None"
    and n2: "notification failing_env (log idle @ [WaitForNotifications node_1,
          WaitForNotifications node_2]) node_2 = None"
    and g: "sdk_raises failing_env (log idle @ [WaitForNotifications node_1, WaitForNotifications node_2])
          (DisableNotifications node_1 (FeatureSwitch node_1)) = None"
    and h: "sdk_raises failing_env (log idle @ [WaitForNotifications node_1, WaitForNotifications node_2,
          DisableNotifications node_1 (FeatureSwitch node_1)])
          (WriteSwitchStatus (FeatureSwitch node_1) (status_value ON)) = Some (BTLEException ''Failed to write'')"
    by (simp_all add: failing_env_def quiet_env_def)
  note t = failed_write_is_reported_and_not_retried [OF a b c d e f w1 n1 w2 n2 g h refl,
      of "[[], []]", THEN conjunct2, THEN conjunct2, THEN conjunct2, rule_format, OF refl]
  have r: "guarded_loop failing_env [[?p], [], []] idle =
     (Raised (SystemExit 0),
      idle\<lparr>iot_device_1_status := ON, iot_device_1_act_flag := True,
           log := [WaitForNotifications node_1, WaitForNotifications node_2,
                   DisableNotifications node_1 (FeatureSwitch node_1),
                   WriteSwitchStatus (FeatureSwitch node_1) 1,
                   Print ''Failed to write'', Print (''Exiting...'' @ NL)]\<rparr>)"
    unfolding t by (simp add: l)
  from g h have g': "sdk_raises failing_env [WaitForNotifications node_1, WaitForNotifications node_2]
     (DisableNotifications node_1 (FeatureSwitch node_1)) = None"
    and h': "sdk_raises failing_env [WaitForNotifications node_1, WaitForNotifications node_2,
       DisableNotifications node_1 (FeatureSwitch node_1)]
     (WriteSwitchStatus (FeatureSwitch node_1) 1) = Some (BTLEException ''Failed to write'')"
    by (simp_all add: l)
  from a b c [symmetric] g' h' r show ?thesis by blast
qed

subsection \<open>Writes and shadow updates pass 0 or 1\<close>

lemma status_value_0_or_1: "status_value st = 0 \<or> status_value st = 1"
  by (cases st) simp_all

lemma state_json_str_0_or_1:
  "state_json_str st = ''{\"state\":{\"desired\":{\"switch_status\":0}}}'' \<or>
   state_json_str st = ''{\"state\":{\"desired\":{\"switch_status\":1}}}''"
  by (cases st) (simp_all add: state_json_str_values)

lemma uses_0_or_1_write: "uses_0_or_1 (WriteSwitchStatus f (status_value st))"
  using status_value_0_or_1 [of st] by simp

lemma uses_0_or_1_shadow: "uses_0_or_1 (UpdateShadowState c (state_json_str st) t)"
  using state_json_str_0_or_1 [of st] by simp

lemma sensing_uses_0_or_1: "sensing_call ev \<Longrightarrow> uses_0_or_1 ev"
  by (cases ev) simp_all

lemma print_uses_0_or_1: "is_print ev \<Longrightarrow> uses_0_or_1 ev"
  by (cases ev) simp_all

lemma appends_sdk_call_reading: "(\<And>s. P (ev s)) \<Longrightarrow> appends P (\<lambda>s. sdk_call env (ev s) s)"
  by (simp add: appends_def sdk_call_def split: option.splits)

lemma appends_iot_device_act: "appends uses_0_or_1 (iot_device_act env d f st c)"
  unfolding iot_device_act_def
  by (intro appends_seq appends_sdk_call uses_0_or_1_write uses_0_or_1_shadow) simp_all

lemma appends_handle_actuation: "appends uses_0_or_1 (handle_actuation env)"
proof (rule appendsI)
  fix s :: state
  have 1: "appends uses_0_or_1
     (seq (bindp (read_global iot_device_1) (\<lambda>n1.
             iot_device_act env n1 (FeatureSwitch n1) (iot_device_1_status s) iot_device_1_client))
          (assign (\<lambda>s'. s'\<lparr>iot_device_1_act_flag := False\<rparr>)))"
    by (intro appends_seq appends_bindp appends_read_global appends_iot_device_act appends_assign)
       simp
  have 2: "appends uses_0_or_1
     (seq (bindp (read_global iot_device_2) (\<lambda>n2.
             iot_device_act env n2 (FeatureSwitch n2) (iot_device_2_status s) iot_device_2_client))
          (assign (\<lambda>s'. s'\<lparr>iot_device_2_act_flag := False\<rparr>)))"
    by (intro appends_seq appends_bindp appends_read_global appends_iot_device_act appends_assign)
       simp
  show "\<exists>calls. log (snd (handle_actuation env s)) = log s @ calls \<and> list_all uses_0_or_1 calls"
    using appendsD [OF 1, of s] appendsD [OF 2, of s]
    by (simp add: handle_actuation_def ret_def)
qed

lemma appends_loop_iteration: "appends uses_0_or_1 (loop_iteration env)"
  unfolding loop_iteration_def
  by (intro appends_bindp appends_read_global appends_if appends_ret appends_handle_actuation
        appends_weaken [OF appends_wait] sensing_uses_0_or_1)

lemma appends_main_loop: "appends uses_0_or_1 (main_loop env rounds)"
proof (induction rounds)
  case Nil
  show ?case by (simp add: appends_def)
next
  case (Cons payloads rounds)
  show ?case
  proof (rule appendsI)
    fix s
    let ?s1 = "on_act_messages env payloads s"
    obtain r s2 where it: "loop_iteration env ?s1 = (r, s2)" by (cases "loop_iteration env ?s1")
    from appendsD [OF appends_loop_iteration, of env ?s1] it obtain calls1
      where c1: "log s2 = log s @ calls1" "list_all uses_0_or_1 calls1" by auto
    show "\<exists>calls. log (snd (main_loop env (payloads # rounds) s)) = log s @ calls \<and>
                   list_all uses_0_or_1 calls"
    proof (cases r)
      case (Inl e)
      with it c1 show ?thesis by simp
    next
      case (Inr u)
      from appendsD [OF Cons.IH, of s2] obtain calls2
        where "log (snd (main_loop env rounds s2)) = log s2 @ calls2" "list_all uses_0_or_1 calls2"
        by auto
      with it c1 Inr have "log (snd (main_loop env (payloads # rounds) s)) = log s @ (calls1 @ calls2)"
        "list_all uses_0_or_1 (calls1 @ calls2)" by simp_all
      then show ?thesis by blast
    qed
  qed
qed

lemma appends_read_opts: "appends is_print (read_opts opts)"
proof (induction opts)
  case Nil
  show ?case by (simp add: appends_ret)
next
  case (Cons o1 opts)
  obtain opt arg where o1: "o1 = (opt, arg)" by (cases o1)
  have a: "appends is_print (assign (\<lambda>s. s\<lparr>endpoint := Some arg\<rparr>))"
    "appends is_print (assign (\<lambda>s. s\<lparr>root_ca_path := Some arg\<rparr>))"
    by (simp_all add: appends_assign)
  have h: "appends is_print (seq (print_line HELP) (raise (SystemExit 0)))"
    by (intro appends_seq appends_print_line appends_raise) simp
  show ?case
    unfolding o1 read_opts.simps
    by (intro appends_seq appends_if appends_ret a h Cons.IH)
qed

lemma appends_check_configuration: "appends is_print check_configuration"
  unfolding check_configuration_def
  by (intro appends_bindp appends_read_global appends_if appends_seq appends_ret appends_raise
        appends_print_line) simp_all

lemma appends_read_input: "appends is_print (read_input env argv)"
proof -
  have u: "appends is_print (seq (print_line USAGE) (raise (SystemExit 1)))"
    by (intro appends_seq appends_print_line appends_raise) simp
  have b: "appends is_print
     (case getopt env argv of
        Inl e \<Rightarrow> raise e
      | Inr (opts, args) \<Rightarrow> if length opts = 0 then raise GetoptError else read_opts opts)"
  proof (cases "getopt env argv")
    case (Inl e)
    then show ?thesis by (simp add: appends_raise)
  next
    case (Inr p)
    obtain opts args where "p = (opts, args)" by (cases p)
    with Inr show ?thesis by (simp add: appends_raise appends_read_opts)
  qed
  show ?thesis
    unfolding read_input_def
    by (intro appends_seq appends_catch appends_check_configuration b appends_if u appends_raise)
qed

lemma check_discovered_log: "log (snd (check_discovered ds devices s)) = log s"
  by (induction ds arbitrary: devices s) (simp_all add: Let_def)

lemma appends_check_discovered: "appends P (check_discovered ds devices)"
  by (simp add: appends_def check_discovered_log)

lemma appends_connect_devices: "appends setup_call (connect_devices env devices)"
  by (induction devices)
     (auto intro!: appends_seq appends_ret appends_sdk_call appends_print_line)

lemma setup_uses_0_or_1: "setup_call ev \<Longrightarrow> uses_0_or_1 ev"
  by (cases ev) simp_all

lemma appends_bluetooth_setup: "appends uses_0_or_1 (bluetooth_setup env)"
  unfolding bluetooth_setup_def
  by (intro appends_seq appends_bindp appends_if appends_read_global appends_raise
        appends_check_discovered appends_weaken [OF appends_connect_devices] setup_uses_0_or_1
        appends_sdk_call_reading appends_sdk_call appends_print_line uses_0_or_1_write) simp_all

lemma appends_edge_setup: "appends uses_0_or_1 (edge_setup env)"
  unfolding edge_setup_def
  by (intro appends_seq appends_bindp appends_read_global appends_sdk_call appends_print_line)
     simp_all

lemma appends_reset_shadow_states: "appends uses_0_or_1 (reset_shadow_states env)"
  unfolding reset_shadow_states_def
  by (intro appends_seq appends_print_line appends_sdk_call_reading uses_0_or_1_shadow)
     simp_all

lemma appends_enable_sensing: "appends uses_0_or_1 (enable_sensing env)"
  unfolding enable_sensing_def
  by (intro appends_seq appends_bindp appends_read_global appends_sdk_call appends_print_line)
     simp_all

lemma appends_startup: "appends uses_0_or_1 (startup env)"
  unfolding startup_def
  by (intro appends_seq appends_bluetooth_setup appends_edge_setup appends_reset_shadow_states
        appends_enable_sensing appends_assign) simp

lemma appends_main_handlers: "appends is_print (main_handlers e)"
  by (cases e) (auto intro!: appends_seq appends_raise appends_print_line)

lemma ended_log: "log (snd (ended r)) = log (snd r)"
  by (cases r rule: ended.cases) simp_all

lemma appends_before_try: "appends uses_0_or_1 (seq initial_state (seq print_intro (read_input env argv)))"
  unfolding initial_state_def print_intro_def
  by (intro appends_seq appends_assign appends_print_line
        appends_weaken [OF appends_read_input] print_uses_0_or_1) simp_all

lemma handlers_keep_0_or_1:
  assumes "list_all uses_0_or_1 (log s)"
  shows "list_all uses_0_or_1 (log (snd (ended (main_handlers e s))))"
  using appends_keeps [OF appends_weaken [OF appends_main_handlers], of uses_0_or_1 s e] assms
  by (simp add: ended_log print_uses_0_or_1)

lemma guarded_loop_keeps_0_or_1:
  assumes "list_all uses_0_or_1 (log s)"
  shows "list_all uses_0_or_1 (log (snd (guarded_loop env rounds s)))"
proof -
  obtain r s' where l: "main_loop env rounds s = (r, s')" by (cases "main_loop env rounds s")
  from appends_keeps [OF appends_main_loop assms, of env rounds] l
  have s': "list_all uses_0_or_1 (log s')" by simp
  show ?thesis
  proof (cases r)
    case (Inl e)
    with l handlers_keep_0_or_1 [OF s', of e] show ?thesis by (simp add: guarded_loop_def)
  next
    case (Inr u)
    with l s' show ?thesis by (simp add: guarded_loop_def)
  qed
qed

lemma main_keeps_0_or_1:
  assumes "list_all uses_0_or_1 (log s)"
  shows "list_all uses_0_or_1 (log (snd (main env rounds argv s)))"
proof -
  let ?before = "seq initial_state (seq print_intro (read_input env argv))"
  obtain r1 s1 where b: "?before s = (r1, s1)" by (cases "?before s")
  from appends_keeps [OF appends_before_try assms, of env argv] b
  have s1: "list_all uses_0_or_1 (log s1)" by simp
  show ?thesis
  proof (cases r1)
    case (Inl e)
    with b s1 show ?thesis by (simp add: main_def)
  next
    case r1: (Inr u)
    obtain r2 s2 where st: "startup env s1 = (r2, s2)" by (cases "startup env s1")
    from appends_keeps [OF appends_startup s1, of env] st
    have s2: "list_all uses_0_or_1 (log s2)" by simp
    show ?thesis
    proof (cases r2)
      case (Inl e)
      with b r1 st handlers_keep_0_or_1 [OF s2, of e] show ?thesis by (simp add: main_def)
    next
      case (Inr u')
      with b r1 st guarded_loop_keeps_0_or_1 [OF s2, of env rounds] show ?thesis
        by (simp add: main_def)
    qed
  qed
qed

lemma script_state: "snd (script env rounds argv s) = snd (main env rounds argv s)"
  by (simp add: script_def split: prod.splits outcome.splits pyexn.splits)

text \<open>
  C10. The status globals hold \<open>OFF\<close> or \<open>ON\<close> (their type has nothing else: the
  callbacks store the enum member chosen by the comparison with \<open>0\<close>, never the
  token), whose values are 0 and 1. So in every run of the script, whatever the
  environment, the messages and the command line, every write to a switch passes 0
  or 1 and every shadow update passes a document with \<^verbatim>\<open>"switch_status":0\<close> or
  \<^verbatim>\<open>"switch_status":1\<close>.
\<close>

theorem writes_and_shadow_updates_use_0_or_1:
  assumes "list_all uses_0_or_1 (log s)"
  shows "list_all uses_0_or_1 (log (snd (script env rounds argv s))) \<and>
         status_value (iot_device_1_status (snd (script env rounds argv s))) \<in> {0, 1} \<and>
         status_value (iot_device_2_status (snd (script env rounds argv s))) \<in> {0, 1} \<and>
         status_value (iot_device_1_status (on_act_messages env payloads s)) \<in> {0, 1} \<and>
         status_value (iot_device_2_status (on_act_messages env payloads s)) \<in> {0, 1}"
  using main_keeps_0_or_1 [OF assms] status_value_0_or_1
  by (simp add: script_state)

subsection \<open>Parts of the state that a piece of the script leaves alone\<close>

lemma preservesD: "preserves f m \<Longrightarrow> f (snd (m s)) = f s"
  by (simp add: preserves_def)

lemma preserves_ret: "preserves f (ret x)"
  by (simp add: preserves_def ret_def)

lemma preserves_raise: "preserves f (raise e)"
  by (simp add: preserves_def raise_def)

lemma preserves_read_global: "preserves f (read_global g)"
  by (simp add: preserves_def read_global_def split: option.splits)

lemma preserves_assign: "(\<And>s. f (g s) = f s) \<Longrightarrow> preserves f (assign g)"
  by (simp add: preserves_def assign_def)

lemma preserves_print_line: "(\<And>s l. f (s\<lparr>log := l\<rparr>) = f s) \<Longrightarrow> preserves f (print_line text)"
  by (simp add: preserves_def print_line_def)

lemma preserves_bindp:
  assumes "preserves f m" and "\<And>x. preserves f (k x)"
  shows "preserves f (bindp m k)"
  unfolding preserves_def
proof
  fix s
  obtain r s1 where m: "m s = (r, s1)" by (cases "m s")
  from preservesD [OF assms(1), of s] m have 1: "f s1 = f s" by simp
  show "f (snd (bindp m k s)) = f s"
  proof (cases r)
    case (Inl e)
    with m 1 show ?thesis by (simp add: bindp_def)
  next
    case (Inr x)
    with m 1 preservesD [OF assms(2), of x s1] show ?thesis by (simp add: bindp_def)
  qed
qed

lemma preserves_seq: "preserves f m \<Longrightarrow> preserves f k \<Longrightarrow> preserves f (seq m k)"
  by (simp add: seq_def preserves_bindp)

lemma preserves_catch:
  assumes "preserves f m" and "\<And>e. preserves f (h e)"
  shows "preserves f (catch m h)"
  unfolding preserves_def
proof
  fix s
  obtain r s1 where m: "m s = (r, s1)" by (cases "m s")
  from preservesD [OF assms(1), of s] m have 1: "f s1 = f s" by simp
  show "f (snd (catch m h s)) = f s"
  proof (cases r)
    case (Inr x)
    with m 1 show ?thesis by (simp add: catch_def)
  next
    case (Inl e)
    with m 1 preservesD [OF assms(2), of e s1] show ?thesis by (simp add: catch_def)
  qed
qed

lemma preserves_if: "preserves f m \<Longrightarrow> preserves f k \<Longrightarrow> preserves f (if b then m else k)"
  by simp

subsection \<open>Startup\<close>

lemma print_line_Inr_iff:
  "print_line text s = (Inr u, s') \<longleftrightarrow> s' = s\<lparr>log := log s @ [Print text]\<rparr>"
  by (auto simp: print_line_def)

lemma read_global_Inr_iff: "read_global g s = (Inr x, s') \<longleftrightarrow> g s = Some x \<and> s' = s"
  by (auto simp: read_global_def split: option.splits)

lemma raise_not_Inr: "raise e s \<noteq> (Inr x, s')"
  by (simp add: raise_def)

lemma assign_Inr_iff: "assign f s = (Inr u, s') \<longleftrightarrow> s' = f s"
  by (auto simp: assign_def)

lemmas returns_iff =
  seq_Inr_iff bindp_Inr_iff sdk_call_Inr_iff print_line_Inr_iff read_global_Inr_iff
  assign_Inr_iff raise_not_Inr

lemma edge_setup_returns:
  assumes "edge_setup env s = (Inr u, s')"
  shows "\<exists>ep rp. endpoint s = Some ep \<and> root_ca_path s = Some rp \<and>
           s' = s\<lparr>log := log s @
             [Print (NL @ ''Initializing Edge Computing...'' @ NL),
              NewAWSGreengrass ep rp,
              GetClient IOT_DEVICE_1_NAME IOT_DEVICE_1_CERTIF_PATH IOT_DEVICE_1_PRIV_K_PATH,
              GetClient IOT_DEVICE_2_NAME IOT_DEVICE_2_CERTIF_PATH IOT_DEVICE_2_PRIV_K_PATH,
              ClientConnect iot_device_1_client, ClientConnect iot_device_2_client,
              Subscribe iot_device_1_client MQTT_IOT_DEVICE_SWITCH_ACT_TOPIC MQTT_QOS_1 1,
              Subscribe iot_device_2_client MQTT_IOT_DEVICE_SWITCH_ACT_TOPIC MQTT_QOS_1 2]\<rparr>"
  using assms unfolding edge_setup_def
  by (auto simp: returns_iff)

lemma reset_shadow_states_returns:
  assumes "reset_shadow_states env s = (Inr u, s')"
  shows "s' = s\<lparr>log := log s @
             [UpdateShadowState iot_device_1_client (state_json_str (iot_device_1_status s))
                SHADOW_CALLBACK_TIMEOUT_s,
              UpdateShadowState iot_device_2_client (state_json_str (iot_device_2_status s))
                SHADOW_CALLBACK_TIMEOUT_s,
              Print (NL @ ''Edge Computing Initialized.'')]\<rparr>"
  using assms unfolding reset_shadow_states_def
  by (auto simp: returns_iff)

lemma enable_sensing_returns:
  assumes "enable_sensing env s = (Inr u, s')"
  shows "\<exists>n1 n2. iot_device_1 s = Some n1 \<and> iot_device_2 s = Some n2 \<and>
           s' = s\<lparr>log := log s @
             [FeatureAddListener (FeatureSwitch n1) iot_device_1_client MQTT_IOT_DEVICE_SWITCH_SENSE_TOPIC,
              FeatureAddListener (FeatureSwitch n2) iot_device_2_client MQTT_IOT_DEVICE_SWITCH_SENSE_TOPIC,
              Print (NL @ ''Enabling Bluetooth notifications...''),
              EnableNotifications n1 (FeatureSwitch n1),
              EnableNotifications n2 (FeatureSwitch n2),
              Print (NL @ ''Demo running ('' @ [CHR 0x22] @ ''CTRL+C'' @ [CHR 0x22]
                        @ '' to quit)...'' @ NL)]\<rparr>"
  using assms unfolding enable_sensing_def
  by (auto simp: returns_iff)

lemma check_discovered_effect:
  "\<exists>a b. snd (check_discovered ds devices s) = s\<lparr>iot_device_1 := a, iot_device_2 := b\<rparr>"
proof (induction ds arbitrary: devices s)
  case Nil
  have "s = s\<lparr>iot_device_1 := iot_device_1 s, iot_device_2 := iot_device_2 s\<rparr>" by simp
  then show ?case by (metis check_discovered.simps(1) snd_conv)
next
  case (Cons d ds)
  let ?p = "if get_tag d = IOT_DEVICE_1_MAC then (devices @ [d], s\<lparr>iot_device_1 := Some d\<rparr>)
            else if get_tag d = IOT_DEVICE_2_MAC then (devices @ [d], s\<lparr>iot_device_2 := Some d\<rparr>)
            else (devices, s)"
  obtain devices' s1 where p: "?p = (devices', s1)" by (cases ?p)
  have "\<exists>a b. s1 = s\<lparr>iot_device_1 := a, iot_device_2 := b\<rparr>"
  proof -
    have "s\<lparr>iot_device_1 := Some d\<rparr> = s\<lparr>iot_device_1 := Some d, iot_device_2 := iot_device_2 s\<rparr>"
      "s\<lparr>iot_device_2 := Some d\<rparr> = s\<lparr>iot_device_1 := iot_device_1 s, iot_device_2 := Some d\<rparr>"
      "s = s\<lparr>iot_device_1 := iot_device_1 s, iot_device_2 := iot_device_2 s\<rparr>"
      by simp_all
    with p show ?thesis by (metis Pair_inject)
  qed
  then obtain a b where s1: "s1 = s\<lparr>iot_device_1 := a, iot_device_2 := b\<rparr>" by blast
  show ?case
  proof (cases "length devices' = 2")
    case True
    with p s1 have "snd (check_discovered (d # ds) devices s) = s\<lparr>iot_device_1 := a, iot_device_2 := b\<rparr>"
      by (simp del: One_nat_def)
    then show ?thesis by blast
  next
    case False
    from Cons.IH [of devices' s1] obtain a' b'
      where "snd (check_discovered ds devices' s1) = s1\<lparr>iot_device_1 := a', iot_device_2 := b'\<rparr>"
      by blast
    with p s1 False
    have "snd (check_discovered (d # ds) devices s) = s\<lparr>iot_device_1 := a', iot_device_2 := b'\<rparr>"
      by simp
    then show ?thesis by blast
  qed
qed

lemma keeps_connect_devices: "keeps_globals (connect_devices env devices)"
  by (induction devices)
     (simp_all add: keeps_ret keeps_seq keeps_sdk_call keeps_print_line)

lemma connect_devices_effect:
  "\<exists>calls. snd (connect_devices env devices s) = s\<lparr>log := log s @ calls\<rparr> \<and>
           list_all setup_call calls"
proof -
  from appendsD [OF appends_connect_devices, of env devices s] obtain calls
    where c: "log (snd (connect_devices env devices s)) = log s @ calls" "list_all setup_call calls"
    by blast
  from keeps_globalsD [OF keeps_connect_devices, of env devices s] c
  show ?thesis by auto
qed

lemma bluetooth_setup_returns:
  assumes "bluetooth_setup env s = (Inr u, s')"
  shows "\<exists>pre n1 n2. list_all setup_call pre \<and>
           s' = s\<lparr>iot_device_1 := Some n1, iot_device_2 := Some n2,
                  log := log s @ pre @
                    [Print ''Resetting switches...'',
                     WriteSwitchStatus (FeatureSwitch n1) (status_value (iot_device_1_status s)),
                     WriteSwitchStatus (FeatureSwitch n2) (status_value (iot_device_2_status s)),
                     Print (NL @ ''Bluetooth setup complete.'')]\<rparr>"
proof -
  let ?scan = "[ManagerInstance, ManagerAddListener, Print (''Scanning Bluetooth devices...'' @ NL),
                StartDiscovery False SCANNING_TIME_s, Sleep SCANNING_TIME_s, StopDiscovery, GetNodes]"
  let ?s7 = "s\<lparr>log := log s @ ?scan\<rparr>"
  from assms obtain devices s8 s9 n1 n2 where
    cd: "check_discovered (discovered_nodes env) [] ?s7 = (Inr devices, s8)" and
    co: "connect_devices env devices s8 = (Inr (), s9)" and
    n: "iot_device_1 s9 = Some n1" "iot_device_2 s9 = Some n2" and
    s': "s' = s9\<lparr>log := log s9 @
           [Print (NL @ ''Getting features...''), GetFeature n1, GetFeature n2,
            Print ''Resetting switches...'',
            WriteSwitchStatus (FeatureSwitch n1) (status_value (iot_device_1_status s9)),
            WriteSwitchStatus (FeatureSwitch n2) (status_value (iot_device_2_status s9)),
            Print (NL @ ''Bluetooth setup complete.'')]\<rparr>"
    unfolding bluetooth_setup_def
    by (auto simp: returns_iff split: if_splits)
  from check_discovered_effect [of "discovered_nodes env" "[]" ?s7] cd obtain a b
    where s8: "s8 = ?s7\<lparr>iot_device_1 := a, iot_device_2 := b\<rparr>" by auto
  from connect_devices_effect [of env devices s8] co obtain calls
    where s9: "s9 = s8\<lparr>log := log s8 @ calls\<rparr>" and calls: "list_all setup_call calls" by auto
  from n s8 s9 have ab: "a = Some n1" "b = Some n2" by simp_all
  let ?pre = "?scan @ calls @ [Print (NL @ ''Getting features...''), GetFeature n1, GetFeature n2]"
  have "list_all setup_call ?pre" using calls by simp
  moreover have "s' = s\<lparr>iot_device_1 := Some n1, iot_device_2 := Some n2,
                  log := log s @ ?pre @
                    [Print ''Resetting switches...'',
                     WriteSwitchStatus (FeatureSwitch n1) (status_value (iot_device_1_status s)),
                     WriteSwitchStatus (FeatureSwitch n2) (status_value (iot_device_2_status s)),
                     Print (NL @ ''Bluetooth setup complete.'')]\<rparr>"
    unfolding s' s9 s8 ab by simp
  ultimately show ?thesis by blast
qed

lemma act_globals_simps [simp]:
  "act_globals (s\<lparr>log := l\<rparr>) = act_globals s"
  "act_globals (s\<lparr>endpoint := e\<rparr>) = act_globals s"
  "act_globals (s\<lparr>root_ca_path := r\<rparr>) = act_globals s"
  "act_globals (s\<lparr>iot_device_1 := a\<rparr>) = act_globals s"
  "act_globals (s\<lparr>iot_device_2 := b\<rparr>) = act_globals s"
  by (simp_all add: act_globals_def)

lemma preserves_read_opts: "preserves act_globals (read_opts opts)"
proof (induction opts)
  case Nil
  show ?case by (simp add: preserves_ret)
next
  case (Cons o1 opts)
  obtain opt arg where o1: "o1 = (opt, arg)" by (cases o1)
  have a: "preserves act_globals (assign (\<lambda>s. s\<lparr>endpoint := Some arg\<rparr>))"
    "preserves act_globals (assign (\<lambda>s. s\<lparr>root_ca_path := Some arg\<rparr>))"
    by (simp_all add: preserves_assign)
  have h: "preserves act_globals (seq (print_line HELP) (raise (SystemExit 0)))"
    by (intro preserves_seq preserves_print_line preserves_raise) simp
  show ?case
    unfolding o1 read_opts.simps
    by (intro preserves_seq preserves_if preserves_ret a h Cons.IH)
qed

lemma preserves_check_configuration: "preserves act_globals check_configuration"
  unfolding check_configuration_def
  by (intro preserves_bindp preserves_read_global preserves_if preserves_seq preserves_ret
        preserves_raise preserves_print_line) simp_all

lemma preserves_read_input: "preserves act_globals (read_input env argv)"
proof -
  have u: "preserves act_globals (seq (print_line USAGE) (raise (SystemExit 1)))"
    by (intro preserves_seq preserves_print_line preserves_raise) simp
  have b: "preserves act_globals
     (case getopt env argv of
        Inl e \<Rightarrow> raise e
      | Inr (opts, args) \<Rightarrow> if length opts = 0 then raise GetoptError else read_opts opts)"
  proof (cases "getopt env argv")
    case (Inl e)
    then show ?thesis by (simp add: preserves_raise)
  next
    case (Inr p)
    obtain opts args where "p = (opts, args)" by (cases p)
    with Inr show ?thesis by (simp add: preserves_raise preserves_read_opts)
  qed
  show ?thesis
    unfolding read_input_def
    by (intro preserves_seq preserves_catch preserves_check_configuration b preserves_if u
          preserves_raise)
qed

lemma before_try_returns:
  assumes "seq initial_state (seq print_intro (read_input env argv)) s = (Inr u, s1)"
  shows "act_globals s1 = (OFF, OFF, False, False) \<and>
         (\<exists>prints. log s1 = log s @ prints \<and> list_all is_print prints)"
proof -
  let ?s0 = "s\<lparr>iot_device_1_status := OFF, iot_device_2_status := OFF,
               iot_device_1_act_flag := False, iot_device_2_act_flag := False\<rparr>"
  let ?s0' = "?s0\<lparr>log := log s @ [Print (NL @ INTRO @ NL)]\<rparr>"
  from assms have r: "read_input env argv ?s0' = (Inr u, s1)"
    by (auto simp: returns_iff initial_state_def print_intro_def)
  from preservesD [OF preserves_read_input, of env argv ?s0'] r
  have "act_globals s1 = (OFF, OFF, False, False)" by (simp add: act_globals_def)
  moreover from appendsD [OF appends_read_input, of env argv ?s0'] r obtain prints
    where "log s1 = log s @ (Print (NL @ INTRO @ NL) # prints)" "list_all is_print prints"
    by auto
  then have "\<exists>prints. log s1 = log s @ prints \<and> list_all is_print prints"
    by (intro exI [of _ "Print (NL @ INTRO @ NL) # prints"]) simp
  ultimately show ?thesis by blast
qed

lemma ended_not_running: "ended r \<noteq> (Running, s)"
  by (cases r rule: ended.cases) simp_all

lemma main_reaches_loop:
  assumes "main env [] argv s = (Running, s')"
  shows "\<exists>s1. seq initial_state (seq print_intro (read_input env argv)) s = (Inr (), s1) \<and>
              startup env s1 = (Inr (), s')"
  using assms
  by (auto simp: main_def guarded_loop_def ended_not_running split: prod.splits sum.splits)

lemma print_is_setup: "is_print ev \<Longrightarrow> setup_call ev"
  by (cases ev) simp_all

lemma act_globals_reset:
  assumes "act_globals s = (OFF, OFF, False, False)"
  shows "s\<lparr>iot_device_1_status := OFF, iot_device_2_status := OFF,
           iot_device_1_act_flag := False, iot_device_2_act_flag := False\<rparr> = s"
  using assms by (simp add: act_globals_def)

lemma on_act_messages_fixpoint:
  assumes "act_globals s = (OFF, OFF, False, False)"
      and "s' = (on_act_messages env payloads s)\<lparr>log := l\<rparr>"
  shows "s' = on_act_messages env payloads
           (s'\<lparr>iot_device_1_status := OFF, iot_device_2_status := OFF,
               iot_device_1_act_flag := False, iot_device_2_act_flag := False\<rparr>)"
proof -
  obtain a b c d where f: "on_act_messages env payloads s =
      s\<lparr>iot_device_1_status := a, iot_device_2_status := b,
        iot_device_1_act_flag := c, iot_device_2_act_flag := d\<rparr>"
    using on_act_messages_frame by blast
  have "s'\<lparr>iot_device_1_status := OFF, iot_device_2_status := OFF,
           iot_device_1_act_flag := False, iot_device_2_act_flag := False\<rparr> =
        (s\<lparr>iot_device_1_status := OFF, iot_device_2_status := OFF,
           iot_device_1_act_flag := False, iot_device_2_act_flag := False\<rparr>)\<lparr>log := l\<rparr>"
    unfolding assms(2) f by simp
  also have "\<dots> = s\<lparr>log := l\<rparr>"
    by (simp only: act_globals_reset [OF assms(1)])
  finally show ?thesis
    by (simp add: on_act_messages_update_log assms(2))
qed

text \<open>
  C9, as the code has it. When the startup reaches the loop: the calls before
  \<open>Resetting switches...\<close> are calls of the setup only; then 0 is written to both
  switches; then the edge is set up and the two subscriptions are made; then each
  shadow update passes the status its device has at that moment; then the listeners
  are added and the notifications are enabled. The status and flag globals are what
  the callbacks of the messages that arrived after the subscriptions make of \<open>OFF\<close>
  and \<open>False\<close>: with no such message, both statuses are \<open>OFF\<close> and both flags clear,
  and both shadow updates pass 0.
\<close>

theorem startup_resets_then_subscribes_then_enables:
  assumes "main env [] argv s = (Running, s')"
  shows "\<exists>pre n1 n2 ep rp.
     list_all setup_call pre \<and>
     log s' = log s @ pre @
       [Print ''Resetting switches...'',
        WriteSwitchStatus (FeatureSwitch n1) 0,
        WriteSwitchStatus (FeatureSwitch n2) 0,
        Print (NL @ ''Bluetooth setup complete.''),
        Print (NL @ ''Initializing Edge Computing...'' @ NL),
        NewAWSGreengrass ep rp,
        GetClient IOT_DEVICE_1_NAME IOT_DEVICE_1_CERTIF_PATH IOT_DEVICE_1_PRIV_K_PATH,
        GetClient IOT_DEVICE_2_NAME IOT_DEVICE_2_CERTIF_PATH IOT_DEVICE_2_PRIV_K_PATH,
        ClientConnect iot_device_1_client, ClientConnect iot_device_2_client,
        Subscribe iot_device_1_client MQTT_IOT_DEVICE_SWITCH_ACT_TOPIC MQTT_QOS_1 1,
        Subscribe iot_device_2_client MQTT_IOT_DEVICE_SWITCH_ACT_TOPIC MQTT_QOS_1 2,
        UpdateShadowState iot_device_1_client (state_json_str (iot_device_1_status s'))
          SHADOW_CALLBACK_TIMEOUT_s,
        UpdateShadowState iot_device_2_client (state_json_str (iot_device_2_status s'))
          SHADOW_CALLBACK_TIMEOUT_s,
        Print (NL @ ''Edge Computing Initialized.''),
        FeatureAddListener (FeatureSwitch n1) iot_device_1_client MQTT_IOT_DEVICE_SWITCH_SENSE_TOPIC,
        FeatureAddListener (FeatureSwitch n2) iot_device_2_client MQTT_IOT_DEVICE_SWITCH_SENSE_TOPIC,
        Print (NL @ ''Enabling Bluetooth notifications...''),
        EnableNotifications n1 (FeatureSwitch n1),
        EnableNotifications n2 (FeatureSwitch n2),
        Print (NL @ ''Demo running ('' @ [CHR 0x22] @ ''CTRL+C'' @ [CHR 0x22]
                 @ '' to quit)...'' @ NL)] \<and>
     s' = on_act_messages env (early_acts env)
            (s'\<lparr>iot_device_1_status := OFF, iot_device_2_status := OFF,
                iot_device_1_act_flag := False, iot_device_2_act_flag := False\<rparr>) \<and>
     (early_acts env = [] \<longrightarrow>
        iot_device_1_status s' = OFF \<and> iot_device_2_status s' = OFF \<and>
        \<not> iot_device_1_act_flag s' \<and> \<not> iot_device_2_act_flag s')"
proof -
  from main_reaches_loop [OF assms] obtain s1 where
    b: "seq initial_state (seq print_intro (read_input env argv)) s = (Inr (), s1)" and
    st: "startup env s1 = (Inr (), s')" by blast
  from before_try_returns [OF b] obtain prints where
    g1: "act_globals s1 = (OFF, OFF, False, False)" and
    l1: "log s1 = log s @ prints" and p: "list_all is_print prints" by blast
  from st obtain s2 s3 s5 where
    bt: "bluetooth_setup env s1 = (Inr (), s2)" and
    ed: "edge_setup env s2 = (Inr (), s3)" and
    rs: "reset_shadow_states env (on_act_messages env (early_acts env) s3) = (Inr (), s5)" and
    en: "enable_sensing env s5 = (Inr (), s')"
    unfolding startup_def by (auto simp: returns_iff)
  from bluetooth_setup_returns [OF bt] obtain pre n1 n2 where
    pre: "list_all setup_call pre" and
    s2: "s2 = s1\<lparr>iot_device_1 := Some n1, iot_device_2 := Some n2,
                  log := log s1 @ pre @
                    [Print ''Resetting switches...'',
                     WriteSwitchStatus (FeatureSwitch n1) (status_value (iot_device_1_status s1)),
                     WriteSwitchStatus (FeatureSwitch n2) (status_value (iot_device_2_status s1)),
                     Print (NL @ ''Bluetooth setup complete.'')]\<rparr>" by blast
  from g1 have v: "status_value (iot_device_1_status s1) = 0" "status_value (iot_device_2_status s1) = 0"
    by (simp_all add: act_globals_def)
  from edge_setup_returns [OF ed] obtain ep rp where
    s3: "s3 = s2\<lparr>log := log s2 @
             [Print (NL @ ''Initializing Edge Computing...'' @ NL),
              NewAWSGreengrass ep rp,
              GetClient IOT_DEVICE_1_NAME IOT_DEVICE_1_CERTIF_PATH IOT_DEVICE_1_PRIV_K_PATH,
              GetClient IOT_DEVICE_2_NAME IOT_DEVICE_2_CERTIF_PATH IOT_DEVICE_2_PRIV_K_PATH,
              ClientConnect iot_device_1_client, ClientConnect iot_device_2_client,
              Subscribe iot_device_1_client MQTT_IOT_DEVICE_SWITCH_ACT_TOPIC MQTT_QOS_1 1,
              Subscribe iot_device_2_client MQTT_IOT_DEVICE_SWITCH_ACT_TOPIC MQTT_QOS_1 2]\<rparr>"
    by blast
  let ?s4 = "on_act_messages env (early_acts env) s3"
  note s5 = reset_shadow_states_returns [OF rs]
  from enable_sensing_returns [OF en] obtain m1 m2 where
    m: "iot_device_1 s5 = Some m1" "iot_device_2 s5 = Some m2" and
    s': "s' = s5\<lparr>log := log s5 @
             [FeatureAddListener (FeatureSwitch m1) iot_device_1_client MQTT_IOT_DEVICE_SWITCH_SENSE_TOPIC,
              FeatureAddListener (FeatureSwitch m2) iot_device_2_client MQTT_IOT_DEVICE_SWITCH_SENSE_TOPIC,
              Print (NL @ ''Enabling Bluetooth notifications...''),
              EnableNotifications m1 (FeatureSwitch m1),
              EnableNotifications m2 (FeatureSwitch m2),
              Print (NL @ ''Demo running ('' @ [CHR 0x22] @ ''CTRL+C'' @ [CHR 0x22]
                        @ '' to quit)...'' @ NL)]\<rparr>" by blast
  from m s5 s3 s2 have mn: "m1 = n1" "m2 = n2" by simp_all
  have st': "iot_device_1_status s' = iot_device_1_status ?s4"
    "iot_device_2_status s' = iot_device_2_status ?s4"
    unfolding s' s5 by simp_all
  have g3: "act_globals s3 = (OFF, OFF, False, False)"
    using g1 unfolding s3 s2 by simp
  have whole: "s' = ?s4\<lparr>log := log s'\<rparr>"
    unfolding s' s5 by simp
  note fp = on_act_messages_fixpoint [OF g3 whole]
  have quiet: "early_acts env = [] \<longrightarrow>
        iot_device_1_status s' = OFF \<and> iot_device_2_status s' = OFF \<and>
        \<not> iot_device_1_act_flag s' \<and> \<not> iot_device_2_act_flag s'"
  proof
    assume "early_acts env = []"
    with whole have "act_globals s' = act_globals s3" by (metis act_globals_simps(1) on_act_messages.simps(1))
    with g3 show "iot_device_1_status s' = OFF \<and> iot_device_2_status s' = OFF \<and>
        \<not> iot_device_1_act_flag s' \<and> \<not> iot_device_2_act_flag s'"
      by (simp add: act_globals_def)
  qed
  have pre': "list_all setup_call (prints @ pre)"
    using p pre by (auto simp: list_all_iff print_is_setup)
  have lg: "log s' = log s @ (prints @ pre) @
       [Print ''Resetting switches...'',
        WriteSwitchStatus (FeatureSwitch n1) 0,
        WriteSwitchStatus (FeatureSwitch n2) 0,
        Print (NL @ ''Bluetooth setup complete.''),
        Print (NL @ ''Initializing Edge Computing...'' @ NL),
        NewAWSGreengrass ep rp,
        GetClient IOT_DEVICE_1_NAME IOT_DEVICE_1_CERTIF_PATH IOT_DEVICE_1_PRIV_K_PATH,
        GetClient IOT_DEVICE_2_NAME IOT_DEVICE_2_CERTIF_PATH IOT_DEVICE_2_PRIV_K_PATH,
        ClientConnect iot_device_1_client, ClientConnect iot_device_2_client,
        Subscribe iot_device_1_client MQTT_IOT_DEVICE_SWITCH_ACT_TOPIC MQTT_QOS_1 1,
        Subscribe iot_device_2_client MQTT_IOT_DEVICE_SWITCH_ACT_TOPIC MQTT_QOS_1 2,
        UpdateShadowState iot_device_1_client (state_json_str (iot_device_1_status s'))
          SHADOW_CALLBACK_TIMEOUT_s,
        UpdateShadowState iot_device_2_client (state_json_str (iot_device_2_status s'))
          SHADOW_CALLBACK_TIMEOUT_s,
        Print (NL @ ''Edge Computing Initialized.''),
        FeatureAddListener (FeatureSwitch n1) iot_device_1_client MQTT_IOT_DEVICE_SWITCH_SENSE_TOPIC,
        FeatureAddListener (FeatureSwitch n2) iot_device_2_client MQTT_IOT_DEVICE_SWITCH_SENSE_TOPIC,
        Print (NL @ ''Enabling Bluetooth notifications...''),
        EnableNotifications n1 (FeatureSwitch n1),
        EnableNotifications n2 (FeatureSwitch n2),
        Print (NL @ ''Demo running ('' @ [CHR 0x22] @ ''CTRL+C'' @ [CHR 0x22]
                 @ '' to quit)...'' @ NL)]"
    unfolding st' unfolding s' s5 mn by (simp add: s3 s2 v l1)
  from pre' lg fp quiet show ?thesis by blast
qed

subsection \<open>Missing startup parameters\<close>









lemmas run_defs =
  main_def script_def guarded_loop_def startup_def bluetooth_setup_def edge_setup_def
  reset_shadow_states_def enable_sensing_def initial_state_def print_intro_def read_input_def
  check_configuration_def catch_def seq_def bindp_def ret_def raise_def assign_def
  print_line_def sdk_call_def read_global_def


text \<open>
  A command line that gives only one of the two parameters is outside the theorem
  above. No option assigned the other global, the check at the end of \<open>read_input\<close>
  reads it, and the script ends on \<open>NameError\<close> without the \<^verbatim>\<open>Missing\<close> message that
  the check was written to print.
\<close>

lemma endpoint_alone_raises_name_error:
  "script quiet_env [] [''-e'', ''x''] fresh =
     (Raised NameError, fresh\<lparr>endpoint := Some ''x'', log := [Print (NL @ INTRO @ NL)]\<rparr>) \<and>
   script quiet_env [] [''-r'', ''y''] fresh =
     (Raised NameError, fresh\<lparr>root_ca_path := Some ''y'', log := [Print (NL @ INTRO @ NL)]\<rparr>)"
  by (simp add: run_defs quiet_env_def fresh_def)

lemma getopt_short_e_r:
  "getopt_short [''-e'', ''x'', ''-r'', ''y''] = Inr ([(''-e'', ''x''), (''-r'', ''y'')], [])"
  by simp

text \<open>
  C9 as stated fails. The literal act message for the first device arrives after the
  subscriptions and before the shadow states are reset: the startup reaches the loop
  with the first device's status \<open>ON\<close> and its act pending, and the shadow update of
  the first device has passed \<^verbatim>\<open>"switch_status":1\<close>.
\<close>

theorem early_act_reaches_shadow_reset:
  "main racing_env [] [''-e'', ''x'', ''-r'', ''y''] fresh =
     (Running,
      \<lparr>endpoint = Some ''x'', root_ca_path = Some ''y'',
        iot_device_1 = Some node_1, iot_device_2 = Some node_2,
        iot_device_1_status = ON, iot_device_2_status = OFF,
        iot_device_1_act_flag = True, iot_device_2_act_flag = False,
        log = [Print (NL @ INTRO @ NL),
               ManagerInstance, ManagerAddListener,
               Print (''Scanning Bluetooth devices...'' @ NL),
               StartDiscovery False 5, Sleep 5, StopDiscovery, GetNodes,
               NodeAddListener node_1, Print ''Connecting to Switch_1...'', NodeConnect node_1,
               Print ''Connection done.'',
               NodeAddListener node_2, Print ''Connecting to Switch_2...'', NodeConnect node_2,
               Print ''Connection done.'',
               Print (NL @ ''Getting features...''),
               GetFeature node_1, GetFeature node_2,
               Print ''Resetting switches...'',
               WriteSwitchStatus (FeatureSwitch node_1) 0,
               WriteSwitchStatus (FeatureSwitch node_2) 0,
               Print (NL @ ''Bluetooth setup complete.''),
               Print (NL @ ''Initializing Edge Computing...'' @ NL),
               NewAWSGreengrass ''x'' ''y'',
               GetClient ''IoT_Device_1'' ''./devices_ble_aws/IoT_Device_1.pem''
                 ''./devices_ble_aws/IoT_Device_1.prv'',
               GetClient ''IoT_Device_2'' ''./devices_ble_aws/IoT_Device_2.pem''
                 ''./devices_ble_aws/IoT_Device_2.prv'',
               ClientConnect iot_device_1_client, ClientConnect iot_device_2_client,
               Subscribe iot_device_1_client ''iot_device/switch_act'' 1 1,
               Subscribe iot_device_2_client ''iot_device/switch_act'' 1 2,
               UpdateShadowState iot_device_1_client
                 ''{\"state\":{\"desired\":{\"switch_status\":1}}}'' 5,
               UpdateShadowState iot_device_2_client
                 ''{\"state\":{\"desired\":{\"switch_status\":0}}}'' 5,
               Print (NL @ ''Edge Computing Initialized.''),
               FeatureAddListener (FeatureSwitch node_1) iot_device_1_client ''iot_device/switch_sense'',
               FeatureAddListener (FeatureSwitch node_2) iot_device_2_client ''iot_device/switch_sense'',
               Print (NL @ ''Enabling Bluetooth notifications...''),
               EnableNotifications node_1 (FeatureSwitch node_1),
               EnableNotifications node_2 (FeatureSwitch node_2),
               Print (NL @ ''Demo running ('' @ [CHR 0x22] @ ''CTRL+C'' @ [CHR 0x22]
                        @ '' to quit)...'' @ NL)]\<rparr>)"
proof -
  have p: "get_client_id_and_switch_status racing_env
             ''{\"switch_status_value\":\"(1000) IoT_Device_1 1\"}'' =
           Inr (Some (IOT_DEVICE_1_NAME, ''1''))"
    by (simp add: get_client_id_and_switch_status_def racing_env_def quiet_env_def loads_flat_def
          symbol_def quoted_def skip_ws_def IOT_DEVICE_1_NAME_def)
  have e: "early_acts racing_env = [''{\"switch_status_value\":\"(1000) IoT_Device_1 1\"}'']"
    "sdk_raises racing_env = (\<lambda>calls ev. None)"
    "discovered_nodes racing_env = [node_1, node_2]"
    "getopt racing_env = getopt_short"
    by (simp_all add: racing_env_def quiet_env_def)
  have t: "get_tag node_1 = IOT_DEVICE_1_MAC" "get_tag node_2 = IOT_DEVICE_2_MAC"
    "get_name node_1 = ''Switch_1''" "get_name node_2 = ''Switch_2''"
    "IOT_DEVICE_1_MAC \<noteq> IOT_DEVICE_2_MAC" "IOT_DEVICE_2_MAC \<noteq> IOT_DEVICE_1_MAC"
    by (simp_all add: node_1_def node_2_def IOT_DEVICE_1_MAC_def IOT_DEVICE_2_MAC_def)
  show ?thesis
    by (simp add: run_defs e t on_act_message_for_device_1 [OF p] fresh_def getopt_short_e_r
          state_json_str_values SCANNING_TIME_s_def SHADOW_CALLBACK_TIMEOUT_s_def
          MQTT_QOS_1_def MQTT_IOT_DEVICE_SWITCH_ACT_TOPIC_def MQTT_IOT_DEVICE_SWITCH_SENSE_TOPIC_def
          IOT_DEVICE_1_NAME_def IOT_DEVICE_2_NAME_def
          IOT_DEVICE_1_CERTIF_PATH_def IOT_DEVICE_2_CERTIF_PATH_def
          IOT_DEVICE_1_PRIV_K_PATH_def IOT_DEVICE_2_PRIV_K_PATH_def
          DEVICES_PATH_def CERTIF_EXT_def PRIV_K_EXT_def iot_device_1_client_def iot_device_2_client_def)
qed

lemma quiet_startup:
  "fst (main quiet_env [] [''-e'', ''x'', ''-r'', ''y''] fresh) = Running"
proof -
  have t: "get_tag node_1 = IOT_DEVICE_1_MAC" "get_tag node_2 = IOT_DEVICE_2_MAC"
    "IOT_DEVICE_1_MAC \<noteq> IOT_DEVICE_2_MAC" "IOT_DEVICE_2_MAC \<noteq> IOT_DEVICE_1_MAC"
    by (simp_all add: node_1_def node_2_def IOT_DEVICE_1_MAC_def IOT_DEVICE_2_MAC_def)
  show ?thesis
    by (simp add: run_defs quiet_env_def t fresh_def getopt_short_e_r)
qed

theorem startup_resets_then_subscribes_then_enables_witness:
  "main quiet_env [] [''-e'', ''x'', ''-r'', ''y''] fresh =
     (Running, snd (main quiet_env [] [''-e'', ''x'', ''-r'', ''y''] fresh)) \<and>
   early_acts quiet_env = [] \<and>
   iot_device_1_status (snd (main quiet_env [] [''-e'', ''x'', ''-r'', ''y''] fresh)) = OFF \<and>
   iot_device_2_status (snd (main quiet_env [] [''-e'', ''x'', ''-r'', ''y''] fresh)) = OFF \<and>
   \<not> iot_device_1_act_flag (snd (main quiet_env [] [''-e'', ''x'', ''-r'', ''y''] fresh)) \<and>
   \<not> iot_device_2_act_flag (snd (main quiet_env [] [''-e'', ''x'', ''-r'', ''y''] fresh))"
proof -
  let ?r = "main quiet_env [] [''-e'', ''x'', ''-r'', ''y''] fresh"
  have run: "?r = (Running, snd ?r)"
    using quiet_startup by (metis prod.collapse)
  have e: "early_acts quiet_env = []"
    by (simp add: quiet_env_def)
  from startup_resets_then_subscribes_then_enables [OF run] e
  have "iot_device_1_status (snd ?r) = OFF \<and> iot_device_2_status (snd ?r) = OFF \<and>
        \<not> iot_device_1_act_flag (snd ?r) \<and> \<not> iot_device_2_act_flag (snd ?r)"
    by blast
  with run e show ?thesis by blast
qed

theorem writes_and_shadow_updates_use_0_or_1_witness:
  "list_all uses_0_or_1 (log fresh) \<and>
   list_all uses_0_or_1
     (log (snd (script racing_env [[''{\"switch_status_value\":\"(7) IoT_Device_2 ON\"}''], []]
                  [''-e'', ''x'', ''-r'', ''y''] fresh))) \<and>
   status_value (iot_device_1_status
     (on_act_messages racing_env [''{\"switch_status_value\":\"(7) IoT_Device_2 ON\"}''] fresh)) \<in> {0, 1}"
proof -
  have a: "list_all uses_0_or_1 (log fresh)"
    by (simp add: fresh_def)
  from writes_and_shadow_updates_use_0_or_1 [OF a, of racing_env
      "[[''{\"switch_status_value\":\"(7) IoT_Device_2 ON\"}''], []]" "[''-e'', ''x'', ''-r'', ''y'']"
      "[''{\"switch_status_value\":\"(7) IoT_Device_2 ON\"}'']"] a
  show ?thesis by blast
qed

end
